theory Spec2Isabelle
  imports Complex_Main
begin

section \<open>Tensors, layers and the external functions\<close>

text \<open>
  The module \<^verbatim>\<open>deepreg/model/network/ddf_dvf.py\<close> builds a Keras computation graph.
  Its tensors are opaque to it: it only hands them to TensorFlow, to the layers of
  \<^verbatim>\<open>deepreg.model.layer\<close> and to the loss functions of \<^verbatim>\<open>deepreg.model.loss\<close>.
  The type of tensors is therefore a type variable \<open>'t\<close>, and every function of those
  modules is a field of a record of operations that the functions of this file take
  as their first argument.  Operations on tensors are total; the shape errors of the
  tensor library are outside the model.  A Python value that may be \<^verbatim>\<open>None\<close> is an
  \<open>option\<close>; a size tuple is a list of naturals.
\<close>

record 't warping =
  grid_ref :: "'t"
  call :: "'t list \<Rightarrow> 't"

record 't layer_ops =
  tf_expand_dims :: "'t \<Rightarrow> nat \<Rightarrow> 't"
  tf_squeeze :: "'t \<Rightarrow> nat \<Rightarrow> 't"
  tf_concat :: "'t list \<Rightarrow> nat \<Rightarrow> 't"
  Resize3d :: "nat list \<Rightarrow> 't \<Rightarrow> 't"
  IntDVF :: "nat list \<Rightarrow> 't \<Rightarrow> 't"
  Warping :: "nat list \<Rightarrow> 't warping"

section \<open>The forward pass\<close>

text \<open>
  \<^verbatim>\<open>ddf_dvf_forward\<close>, statement by statement.  Python rebinds \<^verbatim>\<open>moving_image\<close> and
  \<^verbatim>\<open>fixed_image\<close>; so do the nested bindings of the \<open>let\<close>.
\<close>

definition ddf_dvf_forward ::
  "'t layer_ops \<Rightarrow> ('t \<Rightarrow> 't) \<Rightarrow> 't \<Rightarrow> 't \<Rightarrow> 't option \<Rightarrow> nat list \<Rightarrow> nat list \<Rightarrow> bool
    \<Rightarrow> 't option \<times> 't \<times> 't \<times> 't option \<times> 't" where
  "ddf_dvf_forward L backbone moving_image fixed_image moving_label
       moving_image_size fixed_image_size output_dvf =
    (let moving_image = tf_expand_dims L moving_image 4;
         fixed_image = tf_expand_dims L fixed_image 4;
         moving_image =
           (if moving_image_size \<noteq> fixed_image_size
            then Resize3d L fixed_image_size moving_image
            else moving_image);
         inputs = tf_concat L [moving_image, fixed_image] 4;
         backbone_out = backbone inputs;
         (dvf, ddf) =
           (if output_dvf
            then (Some backbone_out, IntDVF L fixed_image_size backbone_out)
            else (None, backbone_out));
         warping = Warping L fixed_image_size;
         grid_fixed = tf_squeeze L (grid_ref warping) 0;
         pred_fixed_image = call warping [ddf, tf_squeeze L moving_image 4];
         pred_fixed_label =
           (case moving_label of
              None \<Rightarrow> None
            | Some moving_label \<Rightarrow> Some (call warping [ddf, moving_label]))
     in (dvf, ddf, pred_fixed_image, pred_fixed_label, grid_fixed))"

text \<open>
  The shapes that the comments of \<^verbatim>\<open>ddf_dvf_forward\<close> give for its tensors rest on three
  facts about the operations, for a function \<open>sh\<close> that reads the shape of a tensor:
  \<^verbatim>\<open>tf.expand_dims(x, axis=4)\<close> appends an axis of size 1 to a tensor of rank 4;
  \<^verbatim>\<open>Resize3d(size)\<close> replaces the three spatial sizes of a tensor of rank 5 by \<open>size\<close>;
  \<^verbatim>\<open>tf.concat([x, y], axis=4)\<close> adds the sizes of the last axis of two tensors of rank 5
  that agree on the other axes.
\<close>

definition tf_shape_laws :: "'t layer_ops \<Rightarrow> ('t \<Rightarrow> nat list) \<Rightarrow> bool" where
  "tf_shape_laws L sh \<longleftrightarrow>
     (\<forall>x. length (sh x) = 4 \<longrightarrow> sh (tf_expand_dims L x 4) = sh x @ [1]) \<and>
     (\<forall>sz x b p c. sh x = b # p @ [c] \<and> length p = 3 \<and> length sz = 3 \<longrightarrow>
        sh (Resize3d L sz x) = b # sz @ [c]) \<and>
     (\<forall>x y p c d. sh x = p @ [c] \<and> sh y = p @ [d] \<and> length p = 4 \<longrightarrow>
        sh (tf_concat L [x, y] 4) = p @ [c + d])"

text \<open>
  A second reading of \<^verbatim>\<open>ddf_dvf_forward\<close> does not take for granted that a call of
  TensorFlow or of a layer is a function of its arguments: every operation is a
  relation between its arguments and a value it may return, and
  \<^verbatim>\<open>layer.Warping(fixed_image_size)\<close> is a relation between the size and a layer object
  it may construct, with an attribute \<^verbatim>\<open>grid_ref\<close> and a call.  The backbone is a
  relation too.  A run of the forward pass relates the arguments to a tuple it may
  return; the rule has one premise for each call of the source, in the order of the
  source, and the one layer object that the source binds to \<^verbatim>\<open>warping\<close> serves the
  three statements that use it.
\<close>

record ('t, 'w) layer_rel =
  tf_expand_dims_rel :: "'t \<Rightarrow> nat \<Rightarrow> 't \<Rightarrow> bool"
  tf_squeeze_rel :: "'t \<Rightarrow> nat \<Rightarrow> 't \<Rightarrow> bool"
  tf_concat_rel :: "'t list \<Rightarrow> nat \<Rightarrow> 't \<Rightarrow> bool"
  Resize3d_rel :: "nat list \<Rightarrow> 't \<Rightarrow> 't \<Rightarrow> bool"
  IntDVF_rel :: "nat list \<Rightarrow> 't \<Rightarrow> 't \<Rightarrow> bool"
  Warping_rel :: "nat list \<Rightarrow> 'w \<Rightarrow> bool"
  grid_ref_of :: "'w \<Rightarrow> 't"
  call_rel :: "'w \<Rightarrow> 't list \<Rightarrow> 't \<Rightarrow> bool"

inductive forward_run ::
  "('t, 'w) layer_rel \<Rightarrow> ('t \<Rightarrow> 't \<Rightarrow> bool) \<Rightarrow> 't \<Rightarrow> 't \<Rightarrow> 't option \<Rightarrow> nat list \<Rightarrow> nat list
    \<Rightarrow> bool \<Rightarrow> 't option \<times> 't \<times> 't \<times> 't option \<times> 't \<Rightarrow> bool"
  for R :: "('t, 'w) layer_rel" and backbone :: "'t \<Rightarrow> 't \<Rightarrow> bool" where
  run:
    "tf_expand_dims_rel R moving_image 4 moving_image1 \<Longrightarrow>
     tf_expand_dims_rel R fixed_image 4 fixed_image1 \<Longrightarrow>
     (if moving_image_size \<noteq> fixed_image_size
      then Resize3d_rel R fixed_image_size moving_image1 moving_image2
      else moving_image2 = moving_image1) \<Longrightarrow>
     tf_concat_rel R [moving_image2, fixed_image1] 4 inputs \<Longrightarrow>
     backbone inputs backbone_out \<Longrightarrow>
     (if output_dvf
      then dvf = Some backbone_out \<and> IntDVF_rel R fixed_image_size backbone_out ddf
      else dvf = None \<and> ddf = backbone_out) \<Longrightarrow>
     Warping_rel R fixed_image_size warping \<Longrightarrow>
     tf_squeeze_rel R (grid_ref_of R warping) 0 grid_fixed \<Longrightarrow>
     tf_squeeze_rel R moving_image2 4 squeezed \<Longrightarrow>
     call_rel R warping [ddf, squeezed] pred_fixed_image \<Longrightarrow>
     (case moving_label of
        None \<Rightarrow> pred_fixed_label = None
      | Some l \<Rightarrow> \<exists>p. call_rel R warping [ddf, l] p \<and> pred_fixed_label = Some p) \<Longrightarrow>
     forward_run R backbone moving_image fixed_image moving_label moving_image_size
       fixed_image_size output_dvf (dvf, ddf, pred_fixed_image, pred_fixed_label, grid_fixed)"

text \<open>
  Every operation returns at most one value for given arguments, and two layer objects
  constructed for the same size have the same reference grid and behave alike when
  called.
\<close>

definition single_valued_ops :: "('t, 'w) layer_rel \<Rightarrow> bool" where
  "single_valued_ops R \<longleftrightarrow>
     (\<forall>x a y y'. tf_expand_dims_rel R x a y \<and> tf_expand_dims_rel R x a y' \<longrightarrow> y = y') \<and>
     (\<forall>x a y y'. tf_squeeze_rel R x a y \<and> tf_squeeze_rel R x a y' \<longrightarrow> y = y') \<and>
     (\<forall>xs a y y'. tf_concat_rel R xs a y \<and> tf_concat_rel R xs a y' \<longrightarrow> y = y') \<and>
     (\<forall>s x y y'. Resize3d_rel R s x y \<and> Resize3d_rel R s x y' \<longrightarrow> y = y') \<and>
     (\<forall>s x y y'. IntDVF_rel R s x y \<and> IntDVF_rel R s x y' \<longrightarrow> y = y') \<and>
     (\<forall>s w w'. Warping_rel R s w \<and> Warping_rel R s w' \<longrightarrow>
        grid_ref_of R w = grid_ref_of R w' \<and> call_rel R w = call_rel R w') \<and>
     (\<forall>w xs y y'. call_rel R w xs y \<and> call_rel R w xs y' \<longrightarrow> y = y')"

text \<open>The operations of a record of functions, as relations: each is its graph.\<close>

definition layer_rel_of :: "'t layer_ops \<Rightarrow> ('t, 't warping) layer_rel" where
  "layer_rel_of L =
    \<lparr>tf_expand_dims_rel = (\<lambda>x axis y. y = tf_expand_dims L x axis),
     tf_squeeze_rel = (\<lambda>x axis y. y = tf_squeeze L x axis),
     tf_concat_rel = (\<lambda>xs axis y. y = tf_concat L xs axis),
     Resize3d_rel = (\<lambda>sz x y. y = Resize3d L sz x),
     IntDVF_rel = (\<lambda>sz x y. y = IntDVF L sz x),
     Warping_rel = (\<lambda>sz w. w = Warping L sz),
     grid_ref_of = grid_ref,
     call_rel = (\<lambda>w xs y. y = call w xs)\<rparr>"

section \<open>Configurations, exceptions and the Keras model\<close>

text \<open>
  A configuration is a nested Python dictionary read from YAML: a number, a string or
  a dictionary.  A dictionary is an association list read with \<open>map_of\<close>.  Weights are
  Python floats; only their product with a tensor and their comparison with zero are
  used, and they are modelled as reals.
\<close>

datatype cfg = CNum real | CStr string | CDict "(string \<times> cfg) list"

text \<open>
  The exceptions of the module.  \<open>KeyError\<close>, \<open>TypeError\<close> and \<open>AttributeError\<close> are raised
  by the Python operations of the module itself (subscripts, \<^verbatim>\<open>**\<close>, comparison, a
  method of a non-string).  \<open>NoneValue\<close> is raised when \<^verbatim>\<open>None\<close> reaches a function that
  computes on a tensor.  \<open>External\<close> is any exception raised inside a function of
  another module that receives a configuration and may reject it.
\<close>

datatype error = KeyError string | TypeError | AttributeError | NoneValue | External

definition bind_err :: "error + 'a \<Rightarrow> ('a \<Rightarrow> error + 'b) \<Rightarrow> error + 'b" where
  "bind_err r f = (case r of Inl e \<Rightarrow> Inl e | Inr x \<Rightarrow> f x)"

text \<open>\<^verbatim>\<open>d[k]\<close>: only a dictionary can be subscripted by a string key.\<close>

fun subscript :: "cfg \<Rightarrow> string \<Rightarrow> error + cfg" where
  "subscript (CDict kvs) k = (case map_of kvs k of None \<Rightarrow> Inl (KeyError k) | Some v \<Rightarrow> Inr v)"
| "subscript (CNum x) k = Inl TypeError"
| "subscript (CStr s) k = Inl TypeError"

text \<open>\<^verbatim>\<open>**d\<close>: only a dictionary can be unpacked into keyword arguments.\<close>

fun kwargs :: "cfg \<Rightarrow> error + (string \<times> cfg) list" where
  "kwargs (CDict kvs) = Inr kvs"
| "kwargs (CNum x) = Inl TypeError"
| "kwargs (CStr s) = Inl TypeError"

text \<open>\<^verbatim>\<open>w > 0\<close>: a string or a dictionary cannot be compared with a number.\<close>

fun greater_than_zero :: "cfg \<Rightarrow> error + bool" where
  "greater_than_zero (CNum w) = Inr (w > 0)"
| "greater_than_zero (CStr s) = Inl TypeError"
| "greater_than_zero (CDict kvs) = Inl TypeError"

text \<open>The call of a function that may raise, and the use of a value that may be \<^verbatim>\<open>None\<close>
  as a tensor.\<close>

fun external :: "'a option \<Rightarrow> error + 'a" where
  "external None = Inl External"
| "external (Some x) = Inr x"

fun tensor :: "'t option \<Rightarrow> error + 't" where
  "tensor None = Inl NoneValue"
| "tensor (Some x) = Inr x"

text \<open>
  The functions of \<^verbatim>\<open>deepreg.model.loss\<close> and of TensorFlow used by the assembler.  The
  three that take a configuration may raise on it (\<open>None\<close>); the others compute on
  tensors.
\<close>

record 't loss_ops =
  tf_reduce_mean :: "'t \<Rightarrow> 't"
  tf_multiply :: "'t \<Rightarrow> real \<Rightarrow> 't"
  local_displacement_energy :: "'t \<Rightarrow> (string \<times> cfg) list \<Rightarrow> 't option"
  image_dissimilarity_fn :: "'t \<Rightarrow> 't \<Rightarrow> (string \<times> cfg) list \<Rightarrow> 't option"
  get_dissimilarity_fn :: "cfg \<Rightarrow> ('t \<Rightarrow> 't \<Rightarrow> 't) option"
  dice_score :: "'t \<Rightarrow> 't \<Rightarrow> bool \<Rightarrow> 't"
  compute_centroid_distance :: "'t \<Rightarrow> 't \<Rightarrow> 't \<Rightarrow> 't"
  foreground_proportion :: "'t \<Rightarrow> 't"

text \<open>\<^verbatim>\<open>loss * w\<close>: a tensor times a configuration value, which has to be a number.\<close>

fun multiply :: "'t loss_ops \<Rightarrow> 't \<Rightarrow> cfg \<Rightarrow> error + 't" where
  "multiply F x (CNum w) = Inr (tf_multiply F x w)"
| "multiply F x (CStr s) = Inl TypeError"
| "multiply F x (CDict kvs) = Inl TypeError"

text \<open>
  A \<^verbatim>\<open>tf.keras.Model\<close>, as far as the module touches it: the two mappings and the name it
  is constructed from, the losses added by \<^verbatim>\<open>add_loss\<close> and the metrics added by
  \<^verbatim>\<open>add_metric\<close> (value, name, aggregation), both in the order of the calls.
\<close>

record 't model =
  model_inputs :: "string \<rightharpoonup> 't option"
  model_outputs :: "string \<rightharpoonup> 't option"
  model_name :: string
  losses :: "'t list"
  metrics :: "('t \<times> string \<times> string) list"

definition keras_Model :: "(string \<rightharpoonup> 't option) \<Rightarrow> (string \<rightharpoonup> 't option) \<Rightarrow> string \<Rightarrow> 't model" where
  "keras_Model ins outs nm =
     \<lparr>model_inputs = ins, model_outputs = outs, model_name = nm, losses = [], metrics = []\<rparr>"

definition add_loss :: "'t model \<Rightarrow> 't \<Rightarrow> 't model" where
  "add_loss m x = m\<lparr>losses := losses m @ [x]\<rparr>"

definition add_metric :: "'t model \<Rightarrow> 't \<Rightarrow> string \<Rightarrow> string \<Rightarrow> 't model" where
  "add_metric m x nm aggregation = m\<lparr>metrics := metrics m @ [(x, nm, aggregation)]\<rparr>"

section \<open>The loss and metric assembler\<close>

text \<open>
  \<^verbatim>\<open>ddf_dvf_add_loss_metric\<close> mutates the model it is given and returns nothing.  Its
  result here is the model object after the call, together with the exception that
  ended the call, if one did: what \<^verbatim>\<open>add_loss\<close> and \<^verbatim>\<open>add_metric\<close> have put on the model
  before an exception stays on it.  \<open>or_raise model r k\<close> evaluates \<open>r\<close>; an exception
  ends the call with the model as it is, a value goes on to \<open>k\<close>.  \<open>and_then\<close>
  continues after a compound statement unless that has raised.
\<close>

definition or_raise ::
  "'t model \<Rightarrow> error + 'a \<Rightarrow> ('a \<Rightarrow> 't model \<times> error option) \<Rightarrow> 't model \<times> error option" where
  "or_raise model r k = (case r of Inl e \<Rightarrow> (model, Some e) | Inr x \<Rightarrow> k x)"

definition and_then ::
  "'t model \<times> error option \<Rightarrow> ('t model \<Rightarrow> 't model \<times> error option)
    \<Rightarrow> 't model \<times> error option" where
  "and_then r k = (case r of (model, None) \<Rightarrow> k model | (model, Some e) \<Rightarrow> (model, Some e))"

text \<open>
  A subscript that the source writes a second time (\<^verbatim>\<open>loss_config["regularization"]\<close>,
  \<^verbatim>\<open>loss_config["dissimilarity"]\<close>, \<^verbatim>\<open>loss_config["dissimilarity"]["image"]\<close> and its
  \<^verbatim>\<open>"weight"\<close>) is bound at its first evaluation: the dictionaries are not modified in
  between, so the later evaluations return the same value.
\<close>

definition ddf_dvf_add_loss_metric ::
  "'t loss_ops \<Rightarrow> 't model \<Rightarrow> 't \<Rightarrow> 't \<Rightarrow> 't \<Rightarrow> 't option \<Rightarrow> 't \<Rightarrow> 't option \<Rightarrow> cfg
    \<Rightarrow> 't model \<times> error option" where
  "ddf_dvf_add_loss_metric F model ddf grid_fixed fixed_image fixed_label
       pred_fixed_image pred_fixed_label loss_config =
    or_raise model (subscript loss_config ''regularization'') (\<lambda>regularization.
    or_raise model (kwargs regularization) (\<lambda>kw.
    or_raise model (external (local_displacement_energy F ddf kw)) (\<lambda>energy.
    let loss_reg = tf_reduce_mean F energy in
    or_raise model (subscript regularization ''weight'') (\<lambda>weight.
    or_raise model (multiply F loss_reg weight) (\<lambda>weighted_loss_reg.
    let model = add_loss model weighted_loss_reg;
        model = add_metric model loss_reg ''loss/regularization'' ''mean'';
        model = add_metric model weighted_loss_reg ''loss/weighted_regularization'' ''mean''
    in
    or_raise model (subscript loss_config ''dissimilarity'') (\<lambda>dissimilarity.
    or_raise model (subscript dissimilarity ''image'') (\<lambda>image.
    or_raise model (subscript image ''weight'') (\<lambda>weight.
    or_raise model (greater_than_zero weight) (\<lambda>enabled.
    and_then
      (if enabled then
         or_raise model (kwargs image) (\<lambda>kw.
         or_raise model (external (image_dissimilarity_fn F fixed_image pred_fixed_image kw))
           (\<lambda>d.
         let loss_image = tf_reduce_mean F d in
         or_raise model (multiply F loss_image weight) (\<lambda>weighted_loss_image.
         let model = add_loss model weighted_loss_image;
             model = add_metric model loss_image ''loss/image_dissimilarity'' ''mean'';
             model = add_metric model weighted_loss_image
                       ''loss/weighted_image_dissimilarity'' ''mean''
         in (model, None))))
       else (model, None)) (\<lambda>model.
    case fixed_label of
      None \<Rightarrow> (model, None)
    | Some fixed_label \<Rightarrow>
        or_raise model (subscript dissimilarity ''label'') (\<lambda>label.
        or_raise model (external (get_dissimilarity_fn F label)) (\<lambda>fn.
        or_raise model (tensor pred_fixed_label) (\<lambda>pred_fixed_label.
        let loss_label = tf_reduce_mean F (fn fixed_label pred_fixed_label);
            weighted_loss_label = loss_label;
            model = add_loss model weighted_loss_label;
            model = add_metric model loss_label ''loss/label_dissimilarity'' ''mean'';
            model = add_metric model weighted_loss_label
                      ''loss/weighted_label_dissimilarity'' ''mean'';
            dice_binary = dice_score F fixed_label pred_fixed_label True;
            dice_float = dice_score F fixed_label pred_fixed_label False;
            tre = compute_centroid_distance F fixed_label pred_fixed_label grid_fixed;
            foreground_label = foreground_proportion F fixed_label;
            foreground_pred = foreground_proportion F pred_fixed_label;
            model = add_metric model dice_binary ''metric/dice_binary'' ''mean'';
            model = add_metric model dice_float ''metric/dice_float'' ''mean'';
            model = add_metric model tre ''metric/tre'' ''mean'';
            model = add_metric model foreground_label ''metric/foreground_label'' ''mean'';
            model = add_metric model foreground_pred ''metric/foreground_pred'' ''mean''
        in (model, None))))))))))))))"

text \<open>
  The assembler has three commented sections, for the regularization, the image loss
  and the label loss.  Each is written here on its own, with the subscripts it
  evaluates, so that the assembler can be reasoned about section by section; the lemma
  \<open>assembler_sections\<close> below shows that the assembler is their sequence.
\<close>

definition regularization_section ::
  "'t loss_ops \<Rightarrow> 't model \<Rightarrow> 't \<Rightarrow> cfg \<Rightarrow> 't model \<times> error option" where
  "regularization_section F model ddf loss_config =
    or_raise model (subscript loss_config ''regularization'') (\<lambda>regularization.
    or_raise model (kwargs regularization) (\<lambda>kw.
    or_raise model (external (local_displacement_energy F ddf kw)) (\<lambda>energy.
    let loss_reg = tf_reduce_mean F energy in
    or_raise model (subscript regularization ''weight'') (\<lambda>weight.
    or_raise model (multiply F loss_reg weight) (\<lambda>weighted_loss_reg.
    let model = add_loss model weighted_loss_reg;
        model = add_metric model loss_reg ''loss/regularization'' ''mean'';
        model = add_metric model weighted_loss_reg ''loss/weighted_regularization'' ''mean''
    in (model, None))))))"

definition image_section ::
  "'t loss_ops \<Rightarrow> 't model \<Rightarrow> 't \<Rightarrow> 't \<Rightarrow> cfg \<Rightarrow> 't model \<times> error option" where
  "image_section F model fixed_image pred_fixed_image loss_config =
    or_raise model (subscript loss_config ''dissimilarity'') (\<lambda>dissimilarity.
    or_raise model (subscript dissimilarity ''image'') (\<lambda>image.
    or_raise model (subscript image ''weight'') (\<lambda>weight.
    or_raise model (greater_than_zero weight) (\<lambda>enabled.
      if enabled then
         or_raise model (kwargs image) (\<lambda>kw.
         or_raise model (external (image_dissimilarity_fn F fixed_image pred_fixed_image kw))
           (\<lambda>d.
         let loss_image = tf_reduce_mean F d in
         or_raise model (multiply F loss_image weight) (\<lambda>weighted_loss_image.
         let model = add_loss model weighted_loss_image;
             model = add_metric model loss_image ''loss/image_dissimilarity'' ''mean'';
             model = add_metric model weighted_loss_image
                       ''loss/weighted_image_dissimilarity'' ''mean''
         in (model, None))))
       else (model, None)))))"

definition label_section ::
  "'t loss_ops \<Rightarrow> 't model \<Rightarrow> 't \<Rightarrow> 't option \<Rightarrow> 't option \<Rightarrow> cfg
    \<Rightarrow> 't model \<times> error option" where
  "label_section F model grid_fixed fixed_label pred_fixed_label loss_config =
    (case fixed_label of
      None \<Rightarrow> (model, None)
    | Some fixed_label \<Rightarrow>
        or_raise model (subscript loss_config ''dissimilarity'') (\<lambda>dissimilarity.
        or_raise model (subscript dissimilarity ''label'') (\<lambda>label.
        or_raise model (external (get_dissimilarity_fn F label)) (\<lambda>fn.
        or_raise model (tensor pred_fixed_label) (\<lambda>pred_fixed_label.
        let loss_label = tf_reduce_mean F (fn fixed_label pred_fixed_label);
            weighted_loss_label = loss_label;
            model = add_loss model weighted_loss_label;
            model = add_metric model loss_label ''loss/label_dissimilarity'' ''mean'';
            model = add_metric model weighted_loss_label
                      ''loss/weighted_label_dissimilarity'' ''mean'';
            dice_binary = dice_score F fixed_label pred_fixed_label True;
            dice_float = dice_score F fixed_label pred_fixed_label False;
            tre = compute_centroid_distance F fixed_label pred_fixed_label grid_fixed;
            foreground_label = foreground_proportion F fixed_label;
            foreground_pred = foreground_proportion F pred_fixed_label;
            model = add_metric model dice_binary ''metric/dice_binary'' ''mean'';
            model = add_metric model dice_float ''metric/dice_float'' ''mean'';
            model = add_metric model tre ''metric/tre'' ''mean'';
            model = add_metric model foreground_label ''metric/foreground_label'' ''mean'';
            model = add_metric model foreground_pred ''metric/foreground_pred'' ''mean''
        in (model, None))))))"

section \<open>Building the model\<close>

text \<open>
  The helpers that \<^verbatim>\<open>build_ddf_dvf_model\<close> imports from \<^verbatim>\<open>deepreg.model.network.util\<close>
  are not part of the module; they are parameters, and each may raise.
  \<^verbatim>\<open>build_inputs\<close> returns the five input tensors, of which the two labels may be
  \<^verbatim>\<open>None\<close>; \<^verbatim>\<open>build_backbone\<close> returns the backbone, a function on tensors; for
  these two \<open>None\<close> stands for an exception.  Each of the three loss helpers
  returns a model, the value that \<^verbatim>\<open>build_ddf_dvf_model\<close> goes on with, or ends with an
  exception.
\<close>

record 't util_ops =
  build_inputs ::
    "nat list \<Rightarrow> nat list \<Rightarrow> nat \<Rightarrow> nat \<Rightarrow> bool \<Rightarrow> ('t \<times> 't \<times> 't option \<times> 't option \<times> 't) option"
  build_backbone :: "nat list \<Rightarrow> nat \<Rightarrow> cfg \<Rightarrow> cfg \<Rightarrow> ('t \<Rightarrow> 't) option"
  add_ddf_loss :: "'t model \<Rightarrow> 't \<Rightarrow> cfg \<Rightarrow> error + 't model"
  add_image_loss :: "'t model \<Rightarrow> 't \<Rightarrow> 't \<Rightarrow> cfg \<Rightarrow> error + 't model"
  add_label_loss :: "'t model \<Rightarrow> 't \<Rightarrow> 't option \<Rightarrow> 't option \<Rightarrow> cfg \<Rightarrow> error + 't model"

text \<open>\<^verbatim>\<open>s.upper()\<close> on ASCII letters; a number or a dictionary has no such method.\<close>

definition upper_char :: "char \<Rightarrow> char" where
  "upper_char c =
     (let n = (of_char c :: nat) in if 97 \<le> n \<and> n \<le> 122 then char_of (n - 32) else c)"

fun upper :: "cfg \<Rightarrow> error + string" where
  "upper (CStr s) = Inr (map upper_char s)"
| "upper (CNum x) = Inl AttributeError"
| "upper (CDict kvs) = Inl AttributeError"

text \<open>
  The local variables of \<^verbatim>\<open>build_ddf_dvf_model\<close> once the \<^verbatim>\<open>tf.keras.Model\<close> is
  constructed: the model, and the tensors that the loss helpers are then called with.
\<close>

record 't graph =
  g_model :: "'t model"
  g_fixed_image :: "'t"
  g_moving_label :: "'t option"
  g_fixed_label :: "'t option"
  g_dvf :: "'t option"
  g_ddf :: "'t"
  g_pred_fixed_image :: "'t"
  g_pred_fixed_label :: "'t option"
  g_grid_fixed :: "'t"

text \<open>
  \<^verbatim>\<open>build_ddf_dvf_model\<close> up to the construction of the model: inputs, backbone, forward
  pass and the two mappings.  \<^verbatim>\<open>model_config["method"]\<close> is written three times and
  bound once.  The values of the mappings are Python values, a tensor or \<^verbatim>\<open>None\<close>.
\<close>

definition build_ddf_dvf_model_graph ::
  "'t util_ops \<Rightarrow> 't layer_ops \<Rightarrow> nat list \<Rightarrow> nat list \<Rightarrow> nat \<Rightarrow> bool \<Rightarrow> nat \<Rightarrow> cfg
    \<Rightarrow> error + 't graph" where
  "build_ddf_dvf_model_graph U L moving_image_size fixed_image_size index_size labeled
       batch_size model_config =
    bind_err (external (build_inputs U moving_image_size fixed_image_size index_size
                          batch_size labeled))
      (\<lambda>(moving_image, fixed_image, moving_label, fixed_label, indices).
    bind_err (subscript model_config ''method'') (\<lambda>method.
    bind_err (external (build_backbone U fixed_image_size 3 model_config method)) (\<lambda>backbone.
    let (dvf, ddf, pred_fixed_image, pred_fixed_label, grid_fixed) =
          ddf_dvf_forward L backbone moving_image fixed_image moving_label
            moving_image_size fixed_image_size (method = CStr ''dvf'');
        inputs = [''moving_image'' \<mapsto> Some moving_image,
                  ''fixed_image'' \<mapsto> Some fixed_image,
                  ''indices'' \<mapsto> Some indices];
        outputs = [''ddf'' \<mapsto> Some ddf];
        outputs = (case dvf of None \<Rightarrow> outputs | Some v \<Rightarrow> outputs(''dvf'' \<mapsto> dvf))
    in
    bind_err (upper method) (\<lambda>u.
    let model_name = u @ ''RegistrationModel'';
        model =
          (case moving_label of
             None \<Rightarrow> keras_Model inputs outputs (model_name @ ''WithoutLabel'')
           | Some l \<Rightarrow>
               let inputs = inputs(''moving_label'' \<mapsto> moving_label);
                   inputs = inputs(''fixed_label'' \<mapsto> fixed_label);
                   outputs = outputs(''pred_fixed_label'' \<mapsto> pred_fixed_label)
               in keras_Model inputs outputs (model_name @ ''WithLabel''))
    in Inr \<lparr>g_model = model, g_fixed_image = fixed_image, g_moving_label = moving_label,
            g_fixed_label = fixed_label, g_dvf = dvf, g_ddf = ddf,
            g_pred_fixed_image = pred_fixed_image, g_pred_fixed_label = pred_fixed_label,
            g_grid_fixed = grid_fixed\<rparr>))))"

text \<open>The whole of \<^verbatim>\<open>build_ddf_dvf_model\<close>: the three loss helpers follow.\<close>

definition build_ddf_dvf_model ::
  "'t util_ops \<Rightarrow> 't layer_ops \<Rightarrow> nat list \<Rightarrow> nat list \<Rightarrow> nat \<Rightarrow> bool \<Rightarrow> nat \<Rightarrow> cfg \<Rightarrow> cfg
    \<Rightarrow> error + 't model" where
  "build_ddf_dvf_model U L moving_image_size fixed_image_size index_size labeled
       batch_size model_config loss_config =
    bind_err (build_ddf_dvf_model_graph U L moving_image_size fixed_image_size index_size
                labeled batch_size model_config) (\<lambda>g.
    bind_err (add_ddf_loss U (g_model g) (g_ddf g) loss_config) (\<lambda>model.
    bind_err (add_image_loss U model (g_fixed_image g) (g_pred_fixed_image g) loss_config)
      (\<lambda>model.
    add_label_loss U model (g_grid_fixed g) (g_fixed_label g) (g_pred_fixed_label g)
      loss_config)))"

text \<open>
  Modelled from the spec: \<^verbatim>\<open>build_inputs\<close> of \<^verbatim>\<open>deepreg.model.network.util\<close>, which is
  not among the sources.  The spec's model input contract is a mapping with the keys
  \<^verbatim>\<open>moving_image\<close>, \<^verbatim>\<open>fixed_image\<close>, \<^verbatim>\<open>indices\<close> and, conditionally, \<^verbatim>\<open>moving_label\<close> and
  \<^verbatim>\<open>fixed_label\<close>, each a batch-first tensor of the shape of its volume; the condition
  is the parameter \<^verbatim>\<open>labeled\<close> ("indicating if the data is labeled").  The first
  argument stands for the constructor of an input tensor of a given name and shape.
\<close>

definition build_inputs_spec ::
  "(string \<Rightarrow> nat list \<Rightarrow> 't) \<Rightarrow> nat list \<Rightarrow> nat list \<Rightarrow> nat \<Rightarrow> nat \<Rightarrow> bool
    \<Rightarrow> 't \<times> 't \<times> 't option \<times> 't option \<times> 't" where
  "build_inputs_spec keras_Input moving_image_size fixed_image_size index_size batch_size
       labeled =
    (keras_Input ''moving_image'' (batch_size # moving_image_size),
     keras_Input ''fixed_image'' (batch_size # fixed_image_size),
     (if labeled then Some (keras_Input ''moving_label'' (batch_size # moving_image_size))
      else None),
     (if labeled then Some (keras_Input ''fixed_label'' (batch_size # fixed_image_size))
      else None),
     keras_Input ''indices'' [batch_size, index_size])"

section \<open>Symbolic tensors\<close>

text \<open>
  To run the functions above on concrete inputs, a tensor can be taken to be the
  expression that computes it: a node carries the name of the operation, its integer
  attributes (an axis, a size) and its arguments.
\<close>

datatype sym = Node string "nat list" "sym list" | Times sym real

definition sym_layers :: "sym layer_ops" where
  "sym_layers =
    \<lparr>tf_expand_dims = (\<lambda>x axis. Node ''expand_dims'' [axis] [x]),
     tf_squeeze = (\<lambda>x axis. Node ''squeeze'' [axis] [x]),
     tf_concat = (\<lambda>xs axis. Node ''concat'' [axis] xs),
     Resize3d = (\<lambda>size x. Node ''Resize3d'' size [x]),
     IntDVF = (\<lambda>size x. Node ''IntDVF'' size [x]),
     Warping = (\<lambda>size. \<lparr>grid_ref = Node ''grid_ref'' size [],
                         call = (\<lambda>xs. Node ''Warping'' size xs)\<rparr>)\<rparr>"

definition sym_losses :: "sym loss_ops" where
  "sym_losses =
    \<lparr>tf_reduce_mean = (\<lambda>x. Node ''reduce_mean'' [] [x]),
     tf_multiply = Times,
     local_displacement_energy = (\<lambda>x kw. Some (Node ''local_displacement_energy'' [] [x])),
     image_dissimilarity_fn = (\<lambda>y_true y_pred kw. Some (Node ''image_dissimilarity'' [] [y_true, y_pred])),
     get_dissimilarity_fn = (\<lambda>config. Some (\<lambda>y_true y_pred. Node ''label_dissimilarity'' [] [y_true, y_pred])),
     dice_score = (\<lambda>y_true y_pred binary. Node ''dice_score'' [if binary then 1 else 0] [y_true, y_pred]),
     compute_centroid_distance = (\<lambda>y_true y_pred grid. Node ''centroid_distance'' [] [y_true, y_pred, grid]),
     foreground_proportion = (\<lambda>y. Node ''foreground_proportion'' [] [y])\<rparr>"

definition sym_util :: "sym util_ops" where
  "sym_util =
    \<lparr>build_inputs = (\<lambda>moving_image_size fixed_image_size index_size batch_size labeled.
        Some (build_inputs_spec (\<lambda>nm shape. Node nm shape [])
                moving_image_size fixed_image_size index_size batch_size labeled)),
     build_backbone = (\<lambda>image_size out_channels model_config method_name.
        Some (\<lambda>x. Node ''backbone'' (image_size @ [out_channels]) [x])),
     add_ddf_loss = (\<lambda>m ddf loss_config. Inr m),
     add_image_loss = (\<lambda>m fixed_image pred_fixed_image loss_config. Inr m),
     add_label_loss = (\<lambda>m grid_fixed fixed_label pred_fixed_label loss_config. Inr m)\<rparr>"

text \<open>
  What a caller sees of a call that may have ended with an exception, and helpers
  for the builder that run the three sections of the assembler.
\<close>

definition outcome :: "'t model \<times> error option \<Rightarrow> error + 't model" where
  "outcome r = (case r of (m, None) \<Rightarrow> Inr m | (m, Some e) \<Rightarrow> Inl e)"

definition sym_util_assembling :: "sym util_ops" where
  "sym_util_assembling =
    sym_util
    \<lparr>add_ddf_loss := (\<lambda>m ddf loss_config.
        outcome (regularization_section sym_losses m ddf loss_config)),
     add_image_loss := (\<lambda>m fixed_image pred_fixed_image loss_config.
        outcome (image_section sym_losses m fixed_image pred_fixed_image loss_config)),
     add_label_loss := (\<lambda>m grid_fixed fixed_label pred_fixed_label loss_config.
        outcome (label_section sym_losses m grid_fixed fixed_label pred_fixed_label
                   loss_config))\<rparr>"

definition sym_backbone :: "sym \<Rightarrow> sym" where
  "sym_backbone x = Node ''backbone'' [] [x]"

definition sym_model :: "sym model" where
  "sym_model = keras_Model Map.empty Map.empty ''M''"

text \<open>
  A second reading of the layers keeps only the shape of each tensor; the backbone then
  maps a shape with 2 channels to the same shape with 3.
\<close>

definition shape_layers :: "nat list layer_ops" where
  "shape_layers =
    \<lparr>tf_expand_dims = (\<lambda>s axis. take axis s @ [1] @ drop axis s),
     tf_squeeze = (\<lambda>s axis. take axis s @ drop (Suc axis) s),
     tf_concat = (\<lambda>ss axis.
        case ss of
          [] \<Rightarrow> []
        | s # rest \<Rightarrow>
            take axis s @ [sum_list (concat (map (\<lambda>t. take 1 (drop axis t)) ss))]
              @ drop (Suc axis) s),
     Resize3d = (\<lambda>size s. take 1 s @ size @ drop 4 s),
     IntDVF = (\<lambda>size s. s),
     Warping = (\<lambda>size.
        \<lparr>grid_ref = 1 # size @ [3],
         call = (\<lambda>xs. case xs of [] \<Rightarrow> [] | ddf # rest \<Rightarrow> butlast ddf)\<rparr>)\<rparr>"

section \<open>Auxiliary facts\<close>

lemma bind_err_Inr_iff: "bind_err r f = Inr y \<longleftrightarrow> (\<exists>x. r = Inr x \<and> f x = Inr y)"
  by (cases r) (simp_all add: bind_err_def)

lemma external_Inr_iff: "external r = Inr y \<longleftrightarrow> r = Some y"
  by (cases r) simp_all

lemma forward_dvf_iff: "fst (ddf_dvf_forward L backbone m f ml ms fs od) \<noteq> None \<longleftrightarrow> od"
  by (simp add: ddf_dvf_forward_def Let_def)

lemma forward_label_iff:
  "fst (snd (snd (snd (ddf_dvf_forward L backbone m f ml ms fs od)))) \<noteq> None \<longleftrightarrow> ml \<noteq> None"
  by (simp add: ddf_dvf_forward_def Let_def split: option.splits)

lemma graph_eq:
  assumes "build_inputs U ms fs idx bs labeled = Some (mi, fi, ml, fl, ind)"
    and "subscript mc ''method'' = Inr (CStr s)"
    and "build_backbone U fs 3 mc (CStr s) = Some backbone"
    and "ddf_dvf_forward L backbone mi fi ml ms fs (s = ''dvf'') = (dvf, ddf, pfi, pfl, gf)"
  shows "build_ddf_dvf_model_graph U L ms fs idx labeled bs mc =
    Inr \<lparr>g_model =
          (case ml of
             None \<Rightarrow>
               keras_Model
                 [''moving_image'' \<mapsto> Some mi, ''fixed_image'' \<mapsto> Some fi,
                  ''indices'' \<mapsto> Some ind]
                 (case dvf of None \<Rightarrow> [''ddf'' \<mapsto> Some ddf]
                  | Some v \<Rightarrow> [''ddf'' \<mapsto> Some ddf, ''dvf'' \<mapsto> dvf])
                 (map upper_char s @ ''RegistrationModel'' @ ''WithoutLabel'')
           | Some l \<Rightarrow>
               keras_Model
                 [''moving_image'' \<mapsto> Some mi, ''fixed_image'' \<mapsto> Some fi,
                  ''indices'' \<mapsto> Some ind, ''moving_label'' \<mapsto> ml, ''fixed_label'' \<mapsto> fl]
                 ((case dvf of None \<Rightarrow> [''ddf'' \<mapsto> Some ddf]
                   | Some v \<Rightarrow> [''ddf'' \<mapsto> Some ddf, ''dvf'' \<mapsto> dvf])
                  (''pred_fixed_label'' \<mapsto> pfl))
                 (map upper_char s @ ''RegistrationModel'' @ ''WithLabel'')),
         g_fixed_image = fi, g_moving_label = ml, g_fixed_label = fl, g_dvf = dvf,
         g_ddf = ddf, g_pred_fixed_image = pfi, g_pred_fixed_label = pfl,
         g_grid_fixed = gf\<rparr>"
  using assms
  by (simp add: build_ddf_dvf_model_graph_def bind_err_def Let_def split: option.splits)

lemma graph_prereq:
  assumes "build_ddf_dvf_model_graph U L ms fs idx labeled bs mc = Inr g"
  shows "\<exists>mi fi ml fl ind s backbone.
           build_inputs U ms fs idx bs labeled = Some (mi, fi, ml, fl, ind) \<and>
           subscript mc ''method'' = Inr (CStr s) \<and>
           build_backbone U fs 3 mc (CStr s) = Some backbone"
proof (cases "build_inputs U ms fs idx bs labeled")
  case None
  with assms show ?thesis
    by (simp add: build_ddf_dvf_model_graph_def bind_err_def)
next
  case (Some inp)
  obtain mi fi ml fl ind where inp: "inp = (mi, fi, ml, fl, ind)"
    by (rule prod_cases5)
  show ?thesis
  proof (cases "subscript mc ''method''")
    case (Inl e)
    with assms Some inp show ?thesis
      by (simp add: build_ddf_dvf_model_graph_def bind_err_def)
  next
    case (Inr mth)
    show ?thesis
    proof (cases "build_backbone U fs 3 mc mth")
      case None
      with assms Some inp Inr show ?thesis
        by (simp add: build_ddf_dvf_model_graph_def bind_err_def)
    next
      case bb: (Some backbone)
      have "\<exists>s. mth = CStr s"
      proof (cases mth)
        case (CStr s)
        then show ?thesis by simp
      next
        case (CNum x)
        with assms Some inp Inr bb show ?thesis
          by (simp add: build_ddf_dvf_model_graph_def bind_err_def Let_def split: prod.splits)
      next
        case (CDict kvs)
        with assms Some inp Inr bb show ?thesis
          by (simp add: build_ddf_dvf_model_graph_def bind_err_def Let_def split: prod.splits)
      qed
      with Some inp Inr bb show ?thesis by auto
    qed
  qed
qed


lemma forward_eq:
  "ddf_dvf_forward L backbone m f ml ms fs od =
    (let mi = (if ms \<noteq> fs then Resize3d L fs (tf_expand_dims L m 4) else tf_expand_dims L m 4);
         raw = backbone (tf_concat L [mi, tf_expand_dims L f 4] 4);
         ddf = (if od then IntDVF L fs raw else raw);
         w = Warping L fs
     in (if od then Some raw else None, ddf, call w [ddf, tf_squeeze L mi 4],
         map_option (\<lambda>l. call w [ddf, l]) ml, tf_squeeze L (grid_ref w) 0))"
  by (cases ml) (simp_all add: ddf_dvf_forward_def Let_def)

lemma law_expand_dims:
  "tf_shape_laws L sh \<Longrightarrow> length (sh x) = 4 \<Longrightarrow> sh (tf_expand_dims L x 4) = sh x @ [1]"
  unfolding tf_shape_laws_def by blast

lemma law_Resize3d:
  "tf_shape_laws L sh \<Longrightarrow> sh x = b # p @ [c] \<Longrightarrow> length p = 3 \<Longrightarrow> length sz = 3 \<Longrightarrow>
     sh (Resize3d L sz x) = b # sz @ [c]"
  unfolding tf_shape_laws_def by blast

lemma law_concat:
  "tf_shape_laws L sh \<Longrightarrow> sh x = p @ [c] \<Longrightarrow> sh y = p @ [d] \<Longrightarrow> length p = 4 \<Longrightarrow>
     sh (tf_concat L [x, y] 4) = p @ [c + d]"
  unfolding tf_shape_laws_def by blast

lemma shape_layers_laws: "tf_shape_laws shape_layers (\<lambda>s. s)"
  unfolding tf_shape_laws_def
proof (intro conjI allI impI)
  fix x :: "nat list"
  assume "length x = 4"
  then show "tf_expand_dims shape_layers x 4 = x @ [1]"
    by (simp add: shape_layers_def)
next
  fix sz x :: "nat list" and b c :: nat and p :: "nat list"
  assume "x = b # p @ [c] \<and> length p = 3 \<and> length sz = 3"
  then show "Resize3d shape_layers sz x = b # sz @ [c]"
    by (simp add: shape_layers_def)
next
  fix x y p :: "nat list" and c d :: nat
  assume "x = p @ [c] \<and> y = p @ [d] \<and> length p = 4"
  then show "tf_concat shape_layers [x, y] 4 = p @ [c + d]"
    by (simp add: shape_layers_def)
qed

lemma graph_cases:
  assumes "build_ddf_dvf_model_graph U L ms fs idx labeled bs mc = Inr g"
  obtains mi fi ml fl ind s bb dvf ddf pfi pfl gf where
    "build_inputs U ms fs idx bs labeled = Some (mi, fi, ml, fl, ind)"
    "subscript mc ''method'' = Inr (CStr s)"
    "build_backbone U fs 3 mc (CStr s) = Some bb"
    "ddf_dvf_forward L bb mi fi ml ms fs (s = ''dvf'') = (dvf, ddf, pfi, pfl, gf)"
    "g_fixed_image g = fi" "g_moving_label g = ml" "g_fixed_label g = fl" "g_dvf g = dvf"
    "g_ddf g = ddf" "g_pred_fixed_image g = pfi" "g_pred_fixed_label g = pfl"
    "g_grid_fixed g = gf"
    "g_model g =
       (case ml of
          None \<Rightarrow>
            keras_Model
              [''moving_image'' \<mapsto> Some mi, ''fixed_image'' \<mapsto> Some fi,
               ''indices'' \<mapsto> Some ind]
              (case dvf of None \<Rightarrow> [''ddf'' \<mapsto> Some ddf]
               | Some v \<Rightarrow> [''ddf'' \<mapsto> Some ddf, ''dvf'' \<mapsto> dvf])
              (map upper_char s @ ''RegistrationModel'' @ ''WithoutLabel'')
        | Some l \<Rightarrow>
            keras_Model
              [''moving_image'' \<mapsto> Some mi, ''fixed_image'' \<mapsto> Some fi,
               ''indices'' \<mapsto> Some ind, ''moving_label'' \<mapsto> ml, ''fixed_label'' \<mapsto> fl]
              ((case dvf of None \<Rightarrow> [''ddf'' \<mapsto> Some ddf]
                | Some v \<Rightarrow> [''ddf'' \<mapsto> Some ddf, ''dvf'' \<mapsto> dvf])
               (''pred_fixed_label'' \<mapsto> pfl))
              (map upper_char s @ ''RegistrationModel'' @ ''WithLabel''))"
proof -
  from graph_prereq [OF assms] obtain mi fi ml fl ind s bb where
    pre: "build_inputs U ms fs idx bs labeled = Some (mi, fi, ml, fl, ind)"
      "subscript mc ''method'' = Inr (CStr s)"
      "build_backbone U fs 3 mc (CStr s) = Some bb"
    by auto
  obtain dvf ddf pfi pfl gf where
    fw: "ddf_dvf_forward L bb mi fi ml ms fs (s = ''dvf'') = (dvf, ddf, pfi, pfl, gf)"
    by (rule prod_cases5)
  from graph_eq [OF pre fw] assms have
    "g_fixed_image g = fi" "g_moving_label g = ml" "g_fixed_label g = fl" "g_dvf g = dvf"
    "g_ddf g = ddf" "g_pred_fixed_image g = pfi" "g_pred_fixed_label g = pfl"
    "g_grid_fixed g = gf"
    "g_model g =
       (case ml of
          None \<Rightarrow>
            keras_Model
              [''moving_image'' \<mapsto> Some mi, ''fixed_image'' \<mapsto> Some fi,
               ''indices'' \<mapsto> Some ind]
              (case dvf of None \<Rightarrow> [''ddf'' \<mapsto> Some ddf]
               | Some v \<Rightarrow> [''ddf'' \<mapsto> Some ddf, ''dvf'' \<mapsto> dvf])
              (map upper_char s @ ''RegistrationModel'' @ ''WithoutLabel'')
        | Some l \<Rightarrow>
            keras_Model
              [''moving_image'' \<mapsto> Some mi, ''fixed_image'' \<mapsto> Some fi,
               ''indices'' \<mapsto> Some ind, ''moving_label'' \<mapsto> ml, ''fixed_label'' \<mapsto> fl]
              ((case dvf of None \<Rightarrow> [''ddf'' \<mapsto> Some ddf]
                | Some v \<Rightarrow> [''ddf'' \<mapsto> Some ddf, ''dvf'' \<mapsto> dvf])
               (''pred_fixed_label'' \<mapsto> pfl))
              (map upper_char s @ ''RegistrationModel'' @ ''WithLabel''))"
    by auto
  with pre fw show thesis
    by (rule that)
qed

lemma keras_Model_sel:
  "model_inputs (keras_Model i out n) = i" "model_outputs (keras_Model i out n) = out"
  "model_name (keras_Model i out n) = n" "losses (keras_Model i out n) = []"
  "metrics (keras_Model i out n) = []"
  by (simp_all add: keras_Model_def)

lemma or_raise_simps:
  "or_raise m (Inl e) k = (m, Some e)" "or_raise m (Inr x) k = k x"
  by (simp_all add: or_raise_def)

lemma and_then_simps:
  "and_then (m, None) k = k m" "and_then (m, Some e) k = (m, Some e)"
  by (simp_all add: and_then_def)

lemma and_then_or_raise:
  "and_then (or_raise m r k) g = or_raise m r (\<lambda>x. and_then (k x) g)"
  by (cases r) (simp_all add: or_raise_def and_then_def)

lemma and_then_assoc:
  "and_then (and_then r f) g = and_then r (\<lambda>m. and_then (f m) g)"
  by (cases r; cases "snd r") (auto simp: and_then_def)

lemma or_raise_None_iff:
  "or_raise m r k = (m', None) \<longleftrightarrow> (\<exists>x. r = Inr x \<and> k x = (m', None))"
  by (cases r) (simp_all add: or_raise_def)

lemma and_then_None_iff:
  "and_then r k = (m', None) \<longleftrightarrow> (\<exists>m. r = (m, None) \<and> k m = (m', None))"
  by (cases r; cases "snd r") (auto simp: and_then_def)

lemma snd_or_raise_iff:
  "snd (or_raise m r k) = Some e \<longleftrightarrow> r = Inl e \<or> (\<exists>x. r = Inr x \<and> snd (k x) = Some e)"
  by (cases r) (simp_all add: or_raise_def)

lemma snd_and_then_iff:
  "snd (and_then r k) = Some e \<longleftrightarrow>
     snd r = Some e \<or> (\<exists>m. r = (m, None) \<and> snd (k m) = Some e)"
  by (cases r; cases "snd r") (auto simp: and_then_def)

lemma assembler_sections:
  "ddf_dvf_add_loss_metric F model ddf grid_fixed fixed_image fixed_label
       pred_fixed_image pred_fixed_label loss_config =
    and_then (regularization_section F model ddf loss_config) (\<lambda>model.
    and_then (image_section F model fixed_image pred_fixed_image loss_config) (\<lambda>model.
    label_section F model grid_fixed fixed_label pred_fixed_label loss_config))"
proof (cases "subscript loss_config ''dissimilarity''")
  case (Inl e)
  then show ?thesis
    unfolding ddf_dvf_add_loss_metric_def regularization_section_def image_section_def
    by (simp add: and_then_or_raise Let_def or_raise_simps and_then_simps)
next
  case (Inr dis)
  then show ?thesis
    unfolding ddf_dvf_add_loss_metric_def regularization_section_def image_section_def
      label_section_def
    by (simp add: and_then_or_raise Let_def or_raise_simps and_then_simps
          cong: option.case_cong)
qed

lemma subscript_CDict_Inr_iff: "subscript (CDict kvs) k = Inr v \<longleftrightarrow> map_of kvs k = Some v"
  by (simp split: option.splits)

lemma kwargs_Inr_iff: "kwargs c = Inr kw \<longleftrightarrow> c = CDict kw"
  by (cases c) auto

lemma multiply_Inr_iff: "multiply F x c = Inr y \<longleftrightarrow> (\<exists>w. c = CNum w \<and> y = tf_multiply F x w)"
  by (cases c) auto

lemma tensor_Inr_iff: "tensor r = Inr y \<longleftrightarrow> r = Some y"
  by (cases r) simp_all

lemma regularization_section_None_iff:
  "regularization_section F model ddf loss_config = (m, None) \<longleftrightarrow>
    (\<exists>kw energy w.
       subscript loss_config ''regularization'' = Inr (CDict kw) \<and>
       local_displacement_energy F ddf kw = Some energy \<and>
       map_of kw ''weight'' = Some (CNum w) \<and>
       m = model
         \<lparr>losses := losses model @ [tf_multiply F (tf_reduce_mean F energy) w],
          metrics := metrics model @
            [(tf_reduce_mean F energy, ''loss/regularization'', ''mean''),
             (tf_multiply F (tf_reduce_mean F energy) w, ''loss/weighted_regularization'',
              ''mean'')]\<rparr>)"
  unfolding regularization_section_def
  by (auto simp: or_raise_None_iff kwargs_Inr_iff external_Inr_iff multiply_Inr_iff
        subscript_CDict_Inr_iff Let_def add_loss_def add_metric_def
      simp del: subscript.simps)

lemma image_section_None_iff:
  "image_section F model fixed_image pred_fixed_image loss_config = (m, None) \<longleftrightarrow>
    (\<exists>dis ikw iw.
       subscript loss_config ''dissimilarity'' = Inr dis \<and>
       subscript dis ''image'' = Inr (CDict ikw) \<and>
       map_of ikw ''weight'' = Some (CNum iw) \<and>
       (if iw > 0
        then \<exists>d. image_dissimilarity_fn F fixed_image pred_fixed_image ikw = Some d \<and>
               m = model
                 \<lparr>losses := losses model @ [tf_multiply F (tf_reduce_mean F d) iw],
                  metrics := metrics model @
                    [(tf_reduce_mean F d, ''loss/image_dissimilarity'', ''mean''),
                     (tf_multiply F (tf_reduce_mean F d) iw,
                      ''loss/weighted_image_dissimilarity'', ''mean'')]\<rparr>
        else m = model))"
proof (cases "subscript loss_config ''dissimilarity''")
  case (Inl e)
  then show ?thesis by (simp add: image_section_def or_raise_simps)
next
  case dis: (Inr dis)
  show ?thesis
  proof (cases "subscript dis ''image''")
    case (Inl e)
    with dis show ?thesis by (simp add: image_section_def or_raise_simps)
  next
    case (Inr image)
    show ?thesis
    proof (cases image)
      case (CDict ikw)
      show ?thesis
      proof (cases "map_of ikw ''weight''")
        case None
        with dis Inr CDict show ?thesis by (simp add: image_section_def or_raise_simps)
      next
        case (Some weight)
        with dis Inr CDict show ?thesis
          by (cases weight)
            (auto simp: image_section_def or_raise_simps or_raise_None_iff external_Inr_iff
               Let_def add_loss_def add_metric_def)
      qed
    qed (use dis Inr in \<open>simp_all add: image_section_def or_raise_simps\<close>)
  qed
qed

lemma label_section_None_iff:
  "label_section F model grid_fixed fixed_label pred_fixed_label loss_config = (m, None) \<longleftrightarrow>
    (case fixed_label of
       None \<Rightarrow> m = model
     | Some y \<Rightarrow>
         (\<exists>dis label fn p.
            subscript loss_config ''dissimilarity'' = Inr dis \<and>
            subscript dis ''label'' = Inr label \<and>
            get_dissimilarity_fn F label = Some fn \<and>
            pred_fixed_label = Some p \<and>
            m = model
              \<lparr>losses := losses model @ [tf_reduce_mean F (fn y p)],
               metrics := metrics model @
                 [(tf_reduce_mean F (fn y p), ''loss/label_dissimilarity'', ''mean''),
                  (tf_reduce_mean F (fn y p), ''loss/weighted_label_dissimilarity'', ''mean''),
                  (dice_score F y p True, ''metric/dice_binary'', ''mean''),
                  (dice_score F y p False, ''metric/dice_float'', ''mean''),
                  (compute_centroid_distance F y p grid_fixed, ''metric/tre'', ''mean''),
                  (foreground_proportion F y, ''metric/foreground_label'', ''mean''),
                  (foreground_proportion F p, ''metric/foreground_pred'', ''mean'')]\<rparr>))"
  unfolding label_section_def
  by (cases fixed_label)
    (auto simp: or_raise_None_iff external_Inr_iff tensor_Inr_iff Let_def add_loss_def
       add_metric_def)

lemma assembler_None_iff:
  "ddf_dvf_add_loss_metric F model ddf grid_fixed fixed_image fixed_label
       pred_fixed_image pred_fixed_label loss_config = (m', None) \<longleftrightarrow>
    (\<exists>m1 m2.
       regularization_section F model ddf loss_config = (m1, None) \<and>
       image_section F m1 fixed_image pred_fixed_image loss_config = (m2, None) \<and>
       label_section F m2 grid_fixed fixed_label pred_fixed_label loss_config = (m', None))"
  by (simp add: assembler_sections and_then_None_iff)

lemma assembler_None_label:
  "ddf_dvf_add_loss_metric F model ddf grid_fixed fixed_image None
       pred_fixed_image pred_fixed_label loss_config = (m2, None) \<longleftrightarrow>
    (\<exists>m1.
       regularization_section F model ddf loss_config = (m1, None) \<and>
       image_section F m1 fixed_image pred_fixed_image loss_config = (m2, None))"
  by (auto simp: assembler_None_iff label_section_def)

lemma subscript_not_NoneValue: "subscript c k \<noteq> Inl NoneValue"
  by (cases c) (simp_all split: option.splits)

lemma kwargs_not_NoneValue: "kwargs c \<noteq> Inl NoneValue"
  by (cases c) simp_all

lemma multiply_not_NoneValue: "multiply F x c \<noteq> Inl NoneValue"
  by (cases c) simp_all

lemma greater_than_zero_not_NoneValue: "greater_than_zero c \<noteq> Inl NoneValue"
  by (cases c) simp_all

lemma external_not_NoneValue: "external r \<noteq> Inl NoneValue"
  by (cases r) simp_all

lemmas not_NoneValue =
  subscript_not_NoneValue kwargs_not_NoneValue multiply_not_NoneValue
  greater_than_zero_not_NoneValue external_not_NoneValue

lemma regularization_section_not_NoneValue:
  "snd (regularization_section F model ddf loss_config) \<noteq> Some NoneValue"
  by (auto simp: regularization_section_def snd_or_raise_iff not_NoneValue Let_def)

lemma image_section_not_NoneValue:
  "snd (image_section F model fixed_image pred_fixed_image loss_config) \<noteq> Some NoneValue"
  by (auto simp: image_section_def snd_or_raise_iff not_NoneValue Let_def)

lemma label_section_NoneValue:
  "snd (label_section F model grid_fixed fixed_label pred_fixed_label loss_config) =
     Some NoneValue
    \<Longrightarrow> fixed_label \<noteq> None \<and> pred_fixed_label = None"
  by (cases fixed_label; cases pred_fixed_label)
    (auto simp: label_section_def snd_or_raise_iff not_NoneValue Let_def)

lemma assembler_NoneValue:
  "snd (ddf_dvf_add_loss_metric F model ddf grid_fixed fixed_image fixed_label
       pred_fixed_image pred_fixed_label loss_config) = Some NoneValue
    \<Longrightarrow> fixed_label \<noteq> None \<and> pred_fixed_label = None"
  by (auto simp: assembler_sections snd_and_then_iff regularization_section_not_NoneValue
        image_section_not_NoneValue dest: label_section_NoneValue)

lemma add_loss_mappings:
  "model_inputs (add_loss m x) = model_inputs m" "model_outputs (add_loss m x) = model_outputs m"
  by (simp_all add: add_loss_def)

lemma add_metric_mappings:
  "model_inputs (add_metric m x n a) = model_inputs m"
  "model_outputs (add_metric m x n a) = model_outputs m"
  by (simp_all add: add_metric_def)

lemma regularization_section_mappings:
  "model_inputs (fst (regularization_section F m ddf loss_config)) = model_inputs m \<and>
   model_outputs (fst (regularization_section F m ddf loss_config)) = model_outputs m"
  by (simp add: regularization_section_def or_raise_def Let_def add_loss_mappings
        add_metric_mappings split: sum.splits)

lemma image_section_mappings:
  "model_inputs (fst (image_section F m fixed_image pred_fixed_image loss_config)) =
     model_inputs m \<and>
   model_outputs (fst (image_section F m fixed_image pred_fixed_image loss_config)) =
     model_outputs m"
  by (simp add: image_section_def or_raise_def Let_def add_loss_mappings
        add_metric_mappings split: sum.splits)

lemma label_section_mappings:
  "model_inputs (fst (label_section F m grid_fixed fixed_label pred_fixed_label loss_config)) =
     model_inputs m \<and>
   model_outputs (fst (label_section F m grid_fixed fixed_label pred_fixed_label loss_config)) =
     model_outputs m"
  by (simp add: label_section_def or_raise_def Let_def add_loss_mappings
        add_metric_mappings split: sum.splits option.splits)

lemma outcome_Inr_iff: "outcome r = Inr m \<longleftrightarrow> r = (m, None)"
  by (cases r) (simp add: outcome_def split: option.splits)

lemma single_valued_layer_rel_of: "single_valued_ops (layer_rel_of L)"
  by (simp add: single_valued_ops_def layer_rel_of_def)

lemma forward_run_layer_rel_of:
  "forward_run (layer_rel_of L) (\<lambda>x y. y = backbone x) moving_image fixed_image moving_label
     moving_image_size fixed_image_size output_dvf r \<longleftrightarrow>
   r = ddf_dvf_forward L backbone moving_image fixed_image moving_label moving_image_size
         fixed_image_size output_dvf"
  by (cases moving_label)
    (auto simp: forward_run.simps layer_rel_of_def ddf_dvf_forward_def Let_def)

lemma forward_run_single_valued:
  assumes sv: "single_valued_ops R"
    and bb: "\<forall>x y y'. backbone x y \<and> backbone x y' \<longrightarrow> y = y'"
    and r: "forward_run R backbone moving_image fixed_image moving_label moving_image_size
       fixed_image_size output_dvf r"
    and r': "forward_run R backbone moving_image fixed_image moving_label moving_image_size
       fixed_image_size output_dvf r'"
  shows "r = r'"
proof -
  from r obtain m1 f1 m2 inp bo dvf ddf w gf sq pfi pfl where
    e1: "tf_expand_dims_rel R moving_image 4 m1" and
    e2: "tf_expand_dims_rel R fixed_image 4 f1" and
    rs: "if moving_image_size \<noteq> fixed_image_size
         then Resize3d_rel R fixed_image_size m1 m2 else m2 = m1" and
    cc: "tf_concat_rel R [m2, f1] 4 inp" and
    b: "backbone inp bo" and
    dv: "if output_dvf then dvf = Some bo \<and> IntDVF_rel R fixed_image_size bo ddf
         else dvf = None \<and> ddf = bo" and
    wp: "Warping_rel R fixed_image_size w" and
    g: "tf_squeeze_rel R (grid_ref_of R w) 0 gf" and
    s: "tf_squeeze_rel R m2 4 sq" and
    pi: "call_rel R w [ddf, sq] pfi" and
    pl: "case moving_label of None \<Rightarrow> pfl = None
         | Some l \<Rightarrow> \<exists>p. call_rel R w [ddf, l] p \<and> pfl = Some p" and
    res: "r = (dvf, ddf, pfi, pfl, gf)"
    by (auto simp: forward_run.simps)
  from r' obtain m1' f1' m2' inp' bo' dvf' ddf' w' gf' sq' pfi' pfl' where
    e1': "tf_expand_dims_rel R moving_image 4 m1'" and
    e2': "tf_expand_dims_rel R fixed_image 4 f1'" and
    rs': "if moving_image_size \<noteq> fixed_image_size
         then Resize3d_rel R fixed_image_size m1' m2' else m2' = m1'" and
    cc': "tf_concat_rel R [m2', f1'] 4 inp'" and
    b': "backbone inp' bo'" and
    dv': "if output_dvf then dvf' = Some bo' \<and> IntDVF_rel R fixed_image_size bo' ddf'
         else dvf' = None \<and> ddf' = bo'" and
    wp': "Warping_rel R fixed_image_size w'" and
    g': "tf_squeeze_rel R (grid_ref_of R w') 0 gf'" and
    s': "tf_squeeze_rel R m2' 4 sq'" and
    pi': "call_rel R w' [ddf', sq'] pfi'" and
    pl': "case moving_label of None \<Rightarrow> pfl' = None
         | Some l \<Rightarrow> \<exists>p. call_rel R w' [ddf', l] p \<and> pfl' = Some p" and
    res': "r' = (dvf', ddf', pfi', pfl', gf')"
    by (auto simp: forward_run.simps)
  from sv have sv_e:
    "\<forall>x a y y'. tf_expand_dims_rel R x a y \<and> tf_expand_dims_rel R x a y' \<longrightarrow> y = y'"
    by (simp add: single_valued_ops_def)
  from sv have sv_s:
    "\<forall>x a y y'. tf_squeeze_rel R x a y \<and> tf_squeeze_rel R x a y' \<longrightarrow> y = y'"
    by (simp add: single_valued_ops_def)
  from sv have sv_c:
    "\<forall>xs a y y'. tf_concat_rel R xs a y \<and> tf_concat_rel R xs a y' \<longrightarrow> y = y'"
    by (simp add: single_valued_ops_def)
  from sv have sv_r:
    "\<forall>s x y y'. Resize3d_rel R s x y \<and> Resize3d_rel R s x y' \<longrightarrow> y = y'"
    by (simp add: single_valued_ops_def)
  from sv have sv_i:
    "\<forall>s x y y'. IntDVF_rel R s x y \<and> IntDVF_rel R s x y' \<longrightarrow> y = y'"
    by (simp add: single_valued_ops_def)
  from sv have sv_w:
    "\<forall>s w w'. Warping_rel R s w \<and> Warping_rel R s w' \<longrightarrow>
        grid_ref_of R w = grid_ref_of R w' \<and> call_rel R w = call_rel R w'"
    by (simp add: single_valued_ops_def)
  from sv have sv_k:
    "\<forall>w xs y y'. call_rel R w xs y \<and> call_rel R w xs y' \<longrightarrow> y = y'"
    by (simp add: single_valued_ops_def)
  have m1: "m1' = m1"
    using sv_e e1 e1' by blast
  have f1: "f1' = f1"
    using sv_e e2 e2' by blast
  have m2: "m2' = m2"
  proof (cases "moving_image_size \<noteq> fixed_image_size")
    case True
    with rs rs' m1 have "Resize3d_rel R fixed_image_size m1 m2"
      "Resize3d_rel R fixed_image_size m1 m2'"
      by simp_all
    with sv_r show ?thesis
      by blast
  next
    case False
    with rs rs' m1 show ?thesis
      by simp
  qed
  have inp: "inp' = inp"
    using cc cc' m2 f1 sv_c by blast
  have bo: "bo' = bo"
    using b b' inp bb by blast
  have dd: "dvf' = dvf \<and> ddf' = ddf"
  proof (cases output_dvf)
    case True
    with dv dv' bo have "IntDVF_rel R fixed_image_size bo ddf"
      "IntDVF_rel R fixed_image_size bo ddf'" "dvf' = dvf"
      by simp_all
    with sv_i show ?thesis
      by blast
  next
    case False
    with dv dv' bo show ?thesis
      by simp
  qed
  have gr: "grid_ref_of R w' = grid_ref_of R w" and ca: "call_rel R w' = call_rel R w"
    using sv_w wp wp' by blast+
  have gf: "gf' = gf"
    using g g' gr sv_s by (metis (no_types))
  have sq: "sq' = sq"
    using s s' m2 sv_s by blast
  have pfi: "pfi' = pfi"
    using pi pi' ca dd sq sv_k by (metis (no_types))
  have pfl: "pfl' = pfl"
  proof (cases moving_label)
    case None
    with pl pl' show ?thesis
      by simp
  next
    case (Some l)
    with pl pl' dd ca obtain p p' where "call_rel R w [ddf, l] p" "pfl = Some p"
      "call_rel R w [ddf, l] p'" "pfl' = Some p'"
      by auto
    with sv_k show ?thesis
      by blast
  qed
  from res res' dd pfi pfl gf show ?thesis
    by simp
qed

text \<open>
  Without that hypothesis a run need not be determined: if \<^verbatim>\<open>tf.squeeze\<close> may return any
  value, so may the grid and the second argument of the image warp.
\<close>

lemma forward_run_not_single_valued:
  "forward_run ((layer_rel_of sym_layers)\<lparr>tf_squeeze_rel := \<lambda>x axis y. True\<rparr>)
     (\<lambda>x y. y = sym_backbone x) (Node ''m'' [] []) (Node ''f'' [] []) None [4, 4, 4] [4, 4, 4]
     False (None, sym_backbone (Node ''concat'' [4]
        [Node ''expand_dims'' [4] [Node ''m'' [] []],
         Node ''expand_dims'' [4] [Node ''f'' [] []]]), Node ''Warping'' [4, 4, 4]
        [sym_backbone (Node ''concat'' [4]
          [Node ''expand_dims'' [4] [Node ''m'' [] []],
           Node ''expand_dims'' [4] [Node ''f'' [] []]]), x], None, y)"
  by (auto simp: forward_run.simps layer_rel_of_def sym_layers_def)

section \<open>Properties of the forward pass and of the model built\<close>

text \<open>
  C1.  In the forward pass, with \<^verbatim>\<open>output_dvf\<close> the velocity field returned is the raw
  output of the backbone and the displacement field is \<^verbatim>\<open>IntDVF\<close> applied to it; without,
  the displacement field is the raw output of the backbone and the velocity field is
  \<^verbatim>\<open>None\<close>.  The velocity field is returned exactly when \<^verbatim>\<open>output_dvf\<close> holds, so exactly
  one branch applies.  When \<^verbatim>\<open>build_ddf_dvf_model\<close> reaches the forward pass, it calls it
  with \<^verbatim>\<open>output_dvf\<close> being \<^verbatim>\<open>model_config["method"] == "dvf"\<close>.
\<close>

theorem forward_dvf_or_ddf:
  "(\<forall>dvf ddf pred_fixed_image pred_fixed_label grid_fixed.
      ddf_dvf_forward L backbone moving_image fixed_image moving_label
        moving_image_size fixed_image_size output_dvf =
        (dvf, ddf, pred_fixed_image, pred_fixed_label, grid_fixed) \<longrightarrow>
      (let raw = backbone (tf_concat L
                   [if moving_image_size \<noteq> fixed_image_size
                    then Resize3d L fixed_image_size (tf_expand_dims L moving_image 4)
                    else tf_expand_dims L moving_image 4,
                    tf_expand_dims L fixed_image 4] 4)
       in (output_dvf \<longrightarrow> dvf = Some raw \<and> ddf = IntDVF L fixed_image_size raw) \<and>
          (\<not> output_dvf \<longrightarrow> ddf = raw \<and> dvf = None) \<and>
          (dvf \<noteq> None) = output_dvf)) \<and>
   (\<forall>g. build_ddf_dvf_model_graph U L moving_image_size fixed_image_size index_size labeled
          batch_size model_config = Inr g \<longrightarrow>
      (\<exists>mi fi ml fl ind method bb.
         build_inputs U moving_image_size fixed_image_size index_size batch_size labeled =
           Some (mi, fi, ml, fl, ind) \<and>
         subscript model_config ''method'' = Inr method \<and>
         build_backbone U fixed_image_size 3 model_config method = Some bb \<and>
         (g_dvf g, g_ddf g, g_pred_fixed_image g, g_pred_fixed_label g, g_grid_fixed g) =
           ddf_dvf_forward L bb mi fi ml moving_image_size fixed_image_size
             (method = CStr ''dvf'')))"
proof (intro conjI allI impI)
  fix g
  assume g: "build_ddf_dvf_model_graph U L moving_image_size fixed_image_size index_size labeled
          batch_size model_config = Inr g"
  from graph_prereq [OF g] obtain mi fi ml fl ind s bb where
    pre: "build_inputs U moving_image_size fixed_image_size index_size batch_size labeled =
           Some (mi, fi, ml, fl, ind)"
      "subscript model_config ''method'' = Inr (CStr s)"
      "build_backbone U fixed_image_size 3 model_config (CStr s) = Some bb"
    by auto
  obtain dvf ddf pfi pfl gf where
    fw: "ddf_dvf_forward L bb mi fi ml moving_image_size fixed_image_size (s = ''dvf'') =
           (dvf, ddf, pfi, pfl, gf)"
    by (rule prod_cases5)
  from graph_eq [OF pre fw] g fw pre
  show "\<exists>mi fi ml fl ind method bb.
         build_inputs U moving_image_size fixed_image_size index_size batch_size labeled =
           Some (mi, fi, ml, fl, ind) \<and>
         subscript model_config ''method'' = Inr method \<and>
         build_backbone U fixed_image_size 3 model_config method = Some bb \<and>
         (g_dvf g, g_ddf g, g_pred_fixed_image g, g_pred_fixed_label g, g_grid_fixed g) =
           ddf_dvf_forward L bb mi fi ml moving_image_size fixed_image_size
             (method = CStr ''dvf'')"
    by auto
qed (auto simp: forward_eq Let_def)

theorem forward_dvf_or_ddf_witness:
  "ddf_dvf_forward sym_layers sym_backbone (Node ''m'' [] []) (Node ''f'' [] []) None
     [2, 2, 2] [4, 4, 4] True =
     (Some (sym_backbone (Node ''concat'' [4]
        [Node ''Resize3d'' [4, 4, 4] [Node ''expand_dims'' [4] [Node ''m'' [] []]],
         Node ''expand_dims'' [4] [Node ''f'' [] []]])),
      Node ''IntDVF'' [4, 4, 4] [sym_backbone (Node ''concat'' [4]
        [Node ''Resize3d'' [4, 4, 4] [Node ''expand_dims'' [4] [Node ''m'' [] []]],
         Node ''expand_dims'' [4] [Node ''f'' [] []]])],
      snd (snd (ddf_dvf_forward sym_layers sym_backbone (Node ''m'' [] []) (Node ''f'' [] [])
        None [2, 2, 2] [4, 4, 4] True))) \<and>
   ddf_dvf_forward sym_layers sym_backbone (Node ''m'' [] []) (Node ''f'' [] []) None
     [4, 4, 4] [4, 4, 4] False =
     (None,
      sym_backbone (Node ''concat'' [4]
        [Node ''expand_dims'' [4] [Node ''m'' [] []],
         Node ''expand_dims'' [4] [Node ''f'' [] []]]),
      snd (snd (ddf_dvf_forward sym_layers sym_backbone (Node ''m'' [] []) (Node ''f'' [] [])
        None [4, 4, 4] [4, 4, 4] False))) \<and>
   (\<exists>g mi fi ml bb.
      build_ddf_dvf_model_graph sym_util sym_layers [2, 2, 2] [4, 4, 4] 2 True 1
        (CDict [(''method'', CStr ''dvf'')]) = Inr g \<and>
      (g_dvf g, g_ddf g, g_pred_fixed_image g, g_pred_fixed_label g, g_grid_fixed g) =
        ddf_dvf_forward sym_layers bb mi fi ml [2, 2, 2] [4, 4, 4] True)"
proof -
  let ?m = "Node ''m'' [] []" and ?f = "Node ''f'' [] []"
  let ?mc = "CDict [(''method'', CStr ''dvf'')]"
  obtain a1 b1 c1 d1 e1 where
    t: "ddf_dvf_forward sym_layers sym_backbone ?m ?f None [2, 2, 2] [4, 4, 4] True =
          (a1, b1, c1, d1, e1)"
    by (rule prod_cases5)
  obtain a2 b2 c2 d2 e2 where
    f: "ddf_dvf_forward sym_layers sym_backbone ?m ?f None [4, 4, 4] [4, 4, 4] False =
          (a2, b2, c2, d2, e2)"
    by (rule prod_cases5)
  have g: "\<exists>g. build_ddf_dvf_model_graph sym_util sym_layers [2, 2, 2] [4, 4, 4] 2 True 1 ?mc =
             Inr g"
    by (simp add: build_ddf_dvf_model_graph_def sym_util_def build_inputs_spec_def bind_err_def
          Let_def split: prod.splits)
  then obtain g where g': "build_ddf_dvf_model_graph sym_util sym_layers [2, 2, 2] [4, 4, 4] 2
                             True 1 ?mc = Inr g" ..
  have 1: "a1 = Some (sym_backbone (Node ''concat'' [4]
        [Node ''Resize3d'' [4, 4, 4] [Node ''expand_dims'' [4] [?m]],
         Node ''expand_dims'' [4] [?f]])) \<and>
      b1 = Node ''IntDVF'' [4, 4, 4] [sym_backbone (Node ''concat'' [4]
        [Node ''Resize3d'' [4, 4, 4] [Node ''expand_dims'' [4] [?m]],
         Node ''expand_dims'' [4] [?f]])]"
    using forward_dvf_or_ddf [THEN conjunct1, rule_format, OF t]
    by (simp add: sym_layers_def Let_def)
  have 2: "a2 = None \<and> b2 = sym_backbone (Node ''concat'' [4]
        [Node ''expand_dims'' [4] [?m], Node ''expand_dims'' [4] [?f]])"
    using forward_dvf_or_ddf [THEN conjunct1, rule_format, OF f]
    by (simp add: sym_layers_def Let_def)
  have 3: "\<exists>mi fi ml bb.
      (g_dvf g, g_ddf g, g_pred_fixed_image g, g_pred_fixed_label g, g_grid_fixed g) =
        ddf_dvf_forward sym_layers bb mi fi ml [2, 2, 2] [4, 4, 4] True"
    using forward_dvf_or_ddf [THEN conjunct2, rule_format, OF g']
    by auto
  from 1 2 3 g' show ?thesis
    by (simp add: t f)
qed

text \<open>
  C2.  In the model that \<^verbatim>\<open>build_ddf_dvf_model\<close> constructs, the output mapping always has
  the key \<^verbatim>\<open>ddf\<close>; it has the key \<^verbatim>\<open>dvf\<close> exactly when \<^verbatim>\<open>model_config["method"]\<close> is
  \<^verbatim>\<open>"dvf"\<close>, which is exactly when the forward pass returned a velocity field; it has the
  key \<^verbatim>\<open>pred_fixed_label\<close> exactly when \<^verbatim>\<open>build_inputs\<close> supplied a moving label.  The input
  mapping has \<^verbatim>\<open>moving_label\<close> and \<^verbatim>\<open>fixed_label\<close> in exactly that case, next to the three
  keys it always has (first part).  The model that \<^verbatim>\<open>build_ddf_dvf_model\<close> returns is the
  value of \<^verbatim>\<open>add_label_loss\<close> on the value of \<^verbatim>\<open>add_image_loss\<close> on the value of
  \<^verbatim>\<open>add_ddf_loss\<close> on that model (second part).  The three helpers are not part of the
  module; whenever each of them returns a model with the input and output mappings of
  the model it was given, as the sections of the assembler of this module do, every
  model that \<^verbatim>\<open>build_ddf_dvf_model\<close> returns has exactly the keys above (third part).
\<close>

theorem model_mapping_keys:
  "(\<forall>g. build_ddf_dvf_model_graph U L moving_image_size fixed_image_size index_size labeled
          batch_size model_config = Inr g \<longrightarrow>
      (let ins = model_inputs (g_model g); outs = model_outputs (g_model g)
       in ''ddf'' \<in> dom outs \<and>
          (''dvf'' \<in> dom outs) = (subscript model_config ''method'' = Inr (CStr ''dvf'')) \<and>
          (''dvf'' \<in> dom outs) = (g_dvf g \<noteq> None) \<and>
          (''pred_fixed_label'' \<in> dom outs) = (g_moving_label g \<noteq> None) \<and>
          (''moving_label'' \<in> dom ins) = (g_moving_label g \<noteq> None) \<and>
          (''fixed_label'' \<in> dom ins) = (g_moving_label g \<noteq> None) \<and>
          ''moving_image'' \<in> dom ins \<and> ''fixed_image'' \<in> dom ins \<and> ''indices'' \<in> dom ins \<and>
          (\<exists>mi fi fl ind.
             build_inputs U moving_image_size fixed_image_size index_size batch_size labeled =
               Some (mi, fi, g_moving_label g, fl, ind)))) \<and>
   (\<forall>m. build_ddf_dvf_model U L moving_image_size fixed_image_size index_size labeled
          batch_size model_config loss_config = Inr m \<longrightarrow>
      (\<exists>g ma mb.
         build_ddf_dvf_model_graph U L moving_image_size fixed_image_size index_size labeled
           batch_size model_config = Inr g \<and>
         add_ddf_loss U (g_model g) (g_ddf g) loss_config = Inr ma \<and>
         add_image_loss U ma (g_fixed_image g) (g_pred_fixed_image g) loss_config = Inr mb \<and>
         add_label_loss U mb (g_grid_fixed g) (g_fixed_label g) (g_pred_fixed_label g)
           loss_config = Inr m)) \<and>
   (\<forall>m. (\<forall>model ddf c m'. add_ddf_loss U model ddf c = Inr m' \<longrightarrow>
            model_inputs m' = model_inputs model \<and> model_outputs m' = model_outputs model) \<and>
        (\<forall>model fixed_image pred_fixed_image c m'.
            add_image_loss U model fixed_image pred_fixed_image c = Inr m' \<longrightarrow>
            model_inputs m' = model_inputs model \<and> model_outputs m' = model_outputs model) \<and>
        (\<forall>model grid_fixed fixed_label pred_fixed_label c m'.
            add_label_loss U model grid_fixed fixed_label pred_fixed_label c = Inr m' \<longrightarrow>
            model_inputs m' = model_inputs model \<and> model_outputs m' = model_outputs model) \<and>
        build_ddf_dvf_model U L moving_image_size fixed_image_size index_size labeled
          batch_size model_config loss_config = Inr m \<longrightarrow>
      (\<exists>g mi fi fl ind.
         build_ddf_dvf_model_graph U L moving_image_size fixed_image_size index_size labeled
           batch_size model_config = Inr g \<and>
         build_inputs U moving_image_size fixed_image_size index_size batch_size labeled =
           Some (mi, fi, g_moving_label g, fl, ind) \<and>
         (let ins = model_inputs m; outs = model_outputs m
          in ''ddf'' \<in> dom outs \<and>
             (''dvf'' \<in> dom outs) = (subscript model_config ''method'' = Inr (CStr ''dvf'')) \<and>
             (''dvf'' \<in> dom outs) = (g_dvf g \<noteq> None) \<and>
             (''pred_fixed_label'' \<in> dom outs) = (g_moving_label g \<noteq> None) \<and>
             (''moving_label'' \<in> dom ins) = (g_moving_label g \<noteq> None) \<and>
             (''fixed_label'' \<in> dom ins) = (g_moving_label g \<noteq> None) \<and>
             ''moving_image'' \<in> dom ins \<and> ''fixed_image'' \<in> dom ins \<and>
             ''indices'' \<in> dom ins)))"
proof -
  have keys: "let ins = model_inputs (g_model g); outs = model_outputs (g_model g)
       in ''ddf'' \<in> dom outs \<and>
          (''dvf'' \<in> dom outs) = (subscript model_config ''method'' = Inr (CStr ''dvf'')) \<and>
          (''dvf'' \<in> dom outs) = (g_dvf g \<noteq> None) \<and>
          (''pred_fixed_label'' \<in> dom outs) = (g_moving_label g \<noteq> None) \<and>
          (''moving_label'' \<in> dom ins) = (g_moving_label g \<noteq> None) \<and>
          (''fixed_label'' \<in> dom ins) = (g_moving_label g \<noteq> None) \<and>
          ''moving_image'' \<in> dom ins \<and> ''fixed_image'' \<in> dom ins \<and> ''indices'' \<in> dom ins \<and>
          (\<exists>mi fi fl ind.
             build_inputs U moving_image_size fixed_image_size index_size batch_size labeled =
               Some (mi, fi, g_moving_label g, fl, ind))"
    if g: "build_ddf_dvf_model_graph U L moving_image_size fixed_image_size index_size labeled
          batch_size model_config = Inr g" for g
  proof -
    from g obtain mi fi ml fl ind s bb dvf ddf pfi pfl gf where
      bi: "build_inputs U moving_image_size fixed_image_size index_size batch_size labeled =
             Some (mi, fi, ml, fl, ind)" and
      me: "subscript model_config ''method'' = Inr (CStr s)" and
      fw: "ddf_dvf_forward L bb mi fi ml moving_image_size fixed_image_size (s = ''dvf'') =
             (dvf, ddf, pfi, pfl, gf)" and
      sel: "g_moving_label g = ml" "g_dvf g = dvf" and
      model: "g_model g =
         (case ml of
            None \<Rightarrow>
              keras_Model
                [''moving_image'' \<mapsto> Some mi, ''fixed_image'' \<mapsto> Some fi,
                 ''indices'' \<mapsto> Some ind]
                (case dvf of None \<Rightarrow> [''ddf'' \<mapsto> Some ddf]
                 | Some v \<Rightarrow> [''ddf'' \<mapsto> Some ddf, ''dvf'' \<mapsto> dvf])
                (map upper_char s @ ''RegistrationModel'' @ ''WithoutLabel'')
          | Some l \<Rightarrow>
              keras_Model
                [''moving_image'' \<mapsto> Some mi, ''fixed_image'' \<mapsto> Some fi,
                 ''indices'' \<mapsto> Some ind, ''moving_label'' \<mapsto> ml, ''fixed_label'' \<mapsto> fl]
                ((case dvf of None \<Rightarrow> [''ddf'' \<mapsto> Some ddf]
                  | Some v \<Rightarrow> [''ddf'' \<mapsto> Some ddf, ''dvf'' \<mapsto> dvf])
                 (''pred_fixed_label'' \<mapsto> pfl))
                (map upper_char s @ ''RegistrationModel'' @ ''WithLabel''))"
      by (rule graph_cases)
    have dvf: "dvf \<noteq> None \<longleftrightarrow> s = ''dvf''"
      using forward_dvf_iff [of L bb mi fi ml moving_image_size fixed_image_size "s = ''dvf''"] fw
      by simp
    show ?thesis
      using bi me dvf
      by (cases ml; cases dvf) (simp_all add: Let_def model sel keras_Model_sel)
  qed
  have chain: "\<exists>g ma mb.
         build_ddf_dvf_model_graph U L moving_image_size fixed_image_size index_size labeled
           batch_size model_config = Inr g \<and>
         add_ddf_loss U (g_model g) (g_ddf g) loss_config = Inr ma \<and>
         add_image_loss U ma (g_fixed_image g) (g_pred_fixed_image g) loss_config = Inr mb \<and>
         add_label_loss U mb (g_grid_fixed g) (g_fixed_label g) (g_pred_fixed_label g)
           loss_config = Inr m"
    if "build_ddf_dvf_model U L moving_image_size fixed_image_size index_size labeled
          batch_size model_config loss_config = Inr m" for m
    using that by (auto simp: build_ddf_dvf_model_def bind_err_Inr_iff)
  show ?thesis
  proof (intro conjI allI impI)
    fix g
    assume "build_ddf_dvf_model_graph U L moving_image_size fixed_image_size index_size labeled
          batch_size model_config = Inr g"
    then show "let ins = model_inputs (g_model g); outs = model_outputs (g_model g)
       in ''ddf'' \<in> dom outs \<and>
          (''dvf'' \<in> dom outs) = (subscript model_config ''method'' = Inr (CStr ''dvf'')) \<and>
          (''dvf'' \<in> dom outs) = (g_dvf g \<noteq> None) \<and>
          (''pred_fixed_label'' \<in> dom outs) = (g_moving_label g \<noteq> None) \<and>
          (''moving_label'' \<in> dom ins) = (g_moving_label g \<noteq> None) \<and>
          (''fixed_label'' \<in> dom ins) = (g_moving_label g \<noteq> None) \<and>
          ''moving_image'' \<in> dom ins \<and> ''fixed_image'' \<in> dom ins \<and> ''indices'' \<in> dom ins \<and>
          (\<exists>mi fi fl ind.
             build_inputs U moving_image_size fixed_image_size index_size batch_size labeled =
               Some (mi, fi, g_moving_label g, fl, ind))"
      by (rule keys)
  next
    fix m
    assume "build_ddf_dvf_model U L moving_image_size fixed_image_size index_size labeled
          batch_size model_config loss_config = Inr m"
    then show "\<exists>g ma mb.
         build_ddf_dvf_model_graph U L moving_image_size fixed_image_size index_size labeled
           batch_size model_config = Inr g \<and>
         add_ddf_loss U (g_model g) (g_ddf g) loss_config = Inr ma \<and>
         add_image_loss U ma (g_fixed_image g) (g_pred_fixed_image g) loss_config = Inr mb \<and>
         add_label_loss U mb (g_grid_fixed g) (g_fixed_label g) (g_pred_fixed_label g)
           loss_config = Inr m"
      by (rule chain)
  next
    fix m
    assume h: "(\<forall>model ddf c m'. add_ddf_loss U model ddf c = Inr m' \<longrightarrow>
            model_inputs m' = model_inputs model \<and> model_outputs m' = model_outputs model) \<and>
        (\<forall>model fixed_image pred_fixed_image c m'.
            add_image_loss U model fixed_image pred_fixed_image c = Inr m' \<longrightarrow>
            model_inputs m' = model_inputs model \<and> model_outputs m' = model_outputs model) \<and>
        (\<forall>model grid_fixed fixed_label pred_fixed_label c m'.
            add_label_loss U model grid_fixed fixed_label pred_fixed_label c = Inr m' \<longrightarrow>
            model_inputs m' = model_inputs model \<and> model_outputs m' = model_outputs model) \<and>
        build_ddf_dvf_model U L moving_image_size fixed_image_size index_size labeled
          batch_size model_config loss_config = Inr m"
    then have "build_ddf_dvf_model U L moving_image_size fixed_image_size index_size labeled
          batch_size model_config loss_config = Inr m"
      by (elim conjE)
    from chain [OF this] obtain g ma mb where
      g: "build_ddf_dvf_model_graph U L moving_image_size fixed_image_size index_size labeled
           batch_size model_config = Inr g" and
      a: "add_ddf_loss U (g_model g) (g_ddf g) loss_config = Inr ma" and
      b: "add_image_loss U ma (g_fixed_image g) (g_pred_fixed_image g) loss_config = Inr mb" and
      c: "add_label_loss U mb (g_grid_fixed g) (g_fixed_label g) (g_pred_fixed_label g)
           loss_config = Inr m"
      by blast
    from h a have ma: "model_inputs ma = model_inputs (g_model g)"
      "model_outputs ma = model_outputs (g_model g)"
      by blast+
    from h b have mb: "model_inputs mb = model_inputs ma" "model_outputs mb = model_outputs ma"
      by blast+
    from h c have m: "model_inputs m = model_inputs mb" "model_outputs m = model_outputs mb"
      by blast+
    from keys [OF g] ma mb m g
    show "\<exists>g mi fi fl ind.
         build_ddf_dvf_model_graph U L moving_image_size fixed_image_size index_size labeled
           batch_size model_config = Inr g \<and>
         build_inputs U moving_image_size fixed_image_size index_size batch_size labeled =
           Some (mi, fi, g_moving_label g, fl, ind) \<and>
         (let ins = model_inputs m; outs = model_outputs m
          in ''ddf'' \<in> dom outs \<and>
             (''dvf'' \<in> dom outs) = (subscript model_config ''method'' = Inr (CStr ''dvf'')) \<and>
             (''dvf'' \<in> dom outs) = (g_dvf g \<noteq> None) \<and>
             (''pred_fixed_label'' \<in> dom outs) = (g_moving_label g \<noteq> None) \<and>
             (''moving_label'' \<in> dom ins) = (g_moving_label g \<noteq> None) \<and>
             (''fixed_label'' \<in> dom ins) = (g_moving_label g \<noteq> None) \<and>
             ''moving_image'' \<in> dom ins \<and> ''fixed_image'' \<in> dom ins \<and>
             ''indices'' \<in> dom ins)"
      unfolding Let_def by metis
  qed
qed

theorem model_mapping_keys_witness:
  "(\<exists>g. build_ddf_dvf_model_graph sym_util sym_layers [2, 2, 2] [4, 4, 4] 2 True 1
           (CDict [(''method'', CStr ''dvf'')]) = Inr g \<and>
         ''ddf'' \<in> dom (model_outputs (g_model g)) \<and>
         ''dvf'' \<in> dom (model_outputs (g_model g)) \<and>
         ''pred_fixed_label'' \<in> dom (model_outputs (g_model g)) \<and>
         ''moving_label'' \<in> dom (model_inputs (g_model g)) \<and>
         ''fixed_label'' \<in> dom (model_inputs (g_model g))) \<and>
   (\<exists>m. build_ddf_dvf_model sym_util_assembling sym_layers [2, 2, 2] [4, 4, 4] 2 True 1
           (CDict [(''method'', CStr ''dvf'')])
           (CDict [(''regularization'', CDict [(''weight'', CNum 1)]),
                   (''dissimilarity'', CDict [(''image'', CDict [(''weight'', CNum 0)]),
                                              (''label'', CDict [(''name'', CStr ''dice'')])])]) =
           Inr m \<and>
         ''ddf'' \<in> dom (model_outputs m) \<and>
         ''dvf'' \<in> dom (model_outputs m) \<and>
         ''pred_fixed_label'' \<in> dom (model_outputs m) \<and>
         ''moving_label'' \<in> dom (model_inputs m) \<and>
         ''fixed_label'' \<in> dom (model_inputs m) \<and>
         ''moving_image'' \<in> dom (model_inputs m) \<and>
         ''fixed_image'' \<in> dom (model_inputs m) \<and>
         ''indices'' \<in> dom (model_inputs m)) \<and>
   (\<exists>m. build_ddf_dvf_model sym_util_assembling sym_layers [2, 2, 2] [4, 4, 4] 2 False 1
           (CDict [(''method'', CStr ''ddf'')])
           (CDict [(''regularization'', CDict [(''weight'', CNum 1)]),
                   (''dissimilarity'', CDict [(''image'', CDict [(''weight'', CNum 0)]),
                                              (''label'', CDict [(''name'', CStr ''dice'')])])]) =
           Inr m \<and>
         ''ddf'' \<in> dom (model_outputs m) \<and>
         ''dvf'' \<notin> dom (model_outputs m) \<and>
         ''pred_fixed_label'' \<notin> dom (model_outputs m) \<and>
         ''moving_label'' \<notin> dom (model_inputs m) \<and>
         ''fixed_label'' \<notin> dom (model_inputs m))"
proof -
  let ?dvf = "CDict [(''method'', CStr ''dvf'')]" and ?ddf = "CDict [(''method'', CStr ''ddf'')]"
  let ?c = "CDict [(''regularization'', CDict [(''weight'', CNum 1)]),
                   (''dissimilarity'', CDict [(''image'', CDict [(''weight'', CNum 0)]),
                                              (''label'', CDict [(''name'', CStr ''dice'')])])]"
  let ?U = sym_util_assembling
  have "\<exists>g. build_ddf_dvf_model_graph sym_util sym_layers [2, 2, 2] [4, 4, 4] 2 True 1 ?dvf =
          Inr g"
    by (simp add: build_ddf_dvf_model_graph_def sym_util_def build_inputs_spec_def bind_err_def
          Let_def split: prod.splits)
  then obtain g0 where
    g0: "build_ddf_dvf_model_graph sym_util sym_layers [2, 2, 2] [4, 4, 4] 2 True 1 ?dvf = Inr g0"
    ..
  have 0: "''ddf'' \<in> dom (model_outputs (g_model g0)) \<and>
         ''dvf'' \<in> dom (model_outputs (g_model g0)) \<and>
         ''pred_fixed_label'' \<in> dom (model_outputs (g_model g0)) \<and>
         ''moving_label'' \<in> dom (model_inputs (g_model g0)) \<and>
         ''fixed_label'' \<in> dom (model_inputs (g_model g0))"
    using model_mapping_keys [THEN conjunct1, rule_format, OF g0]
    by (auto simp: Let_def sym_util_def build_inputs_spec_def)
  have keep:
    "(\<forall>model ddf c m'. add_ddf_loss ?U model ddf c = Inr m' \<longrightarrow>
        model_inputs m' = model_inputs model \<and> model_outputs m' = model_outputs model) \<and>
     (\<forall>model fixed_image pred_fixed_image c m'.
        add_image_loss ?U model fixed_image pred_fixed_image c = Inr m' \<longrightarrow>
        model_inputs m' = model_inputs model \<and> model_outputs m' = model_outputs model) \<and>
     (\<forall>model grid_fixed fixed_label pred_fixed_label c m'.
        add_label_loss ?U model grid_fixed fixed_label pred_fixed_label c = Inr m' \<longrightarrow>
        model_inputs m' = model_inputs model \<and> model_outputs m' = model_outputs model)"
  proof (intro conjI allI impI)
    fix model :: "sym model" and ddf c m'
    assume "add_ddf_loss ?U model ddf c = Inr m'"
    then have "regularization_section sym_losses model ddf c = (m', None)"
      by (simp add: sym_util_assembling_def outcome_Inr_iff)
    then have "m' = fst (regularization_section sym_losses model ddf c)"
      by simp
    then show "model_inputs m' = model_inputs model" "model_outputs m' = model_outputs model"
      by (simp_all add: regularization_section_mappings)
  next
    fix model :: "sym model" and fixed_image pred_fixed_image c m'
    assume "add_image_loss ?U model fixed_image pred_fixed_image c = Inr m'"
    then have "image_section sym_losses model fixed_image pred_fixed_image c = (m', None)"
      by (simp add: sym_util_assembling_def outcome_Inr_iff)
    then have "m' = fst (image_section sym_losses model fixed_image pred_fixed_image c)"
      by simp
    then show "model_inputs m' = model_inputs model" "model_outputs m' = model_outputs model"
      by (simp_all add: image_section_mappings)
  next
    fix model :: "sym model" and grid_fixed fixed_label pred_fixed_label c m'
    assume "add_label_loss ?U model grid_fixed fixed_label pred_fixed_label c = Inr m'"
    then have "label_section sym_losses model grid_fixed fixed_label pred_fixed_label c =
        (m', None)"
      by (simp add: sym_util_assembling_def outcome_Inr_iff)
    then have "m' = fst (label_section sym_losses model grid_fixed fixed_label
        pred_fixed_label c)"
      by simp
    then show "model_inputs m' = model_inputs model" "model_outputs m' = model_outputs model"
      by (simp_all add: label_section_mappings)
  qed
  have ok1: "\<exists>ma. add_ddf_loss ?U m d ?c = Inr ma" for m d
    by (simp add: sym_util_assembling_def outcome_def regularization_section_def or_raise_def
          sym_losses_def Let_def)
  have ok2: "\<exists>mb. add_image_loss ?U m fi pfi ?c = Inr mb" for m fi pfi
    by (simp add: sym_util_assembling_def outcome_def image_section_def or_raise_def
          sym_losses_def Let_def)
  have ok3: "\<exists>mc. add_label_loss ?U m gf fl pfl ?c = Inr mc"
    if "fl \<noteq> None \<longrightarrow> pfl \<noteq> None" for m gf fl pfl
    using that
    by (cases fl; cases pfl)
      (simp_all add: sym_util_assembling_def outcome_def label_section_def or_raise_def
          sym_losses_def Let_def)
  have gr: "\<exists>g. build_ddf_dvf_model_graph ?U sym_layers [2, 2, 2] [4, 4, 4] 2 lb 1 mc = Inr g \<and>
      (g_fixed_label g \<noteq> None \<longrightarrow> g_pred_fixed_label g \<noteq> None)"
    if "mc = ?dvf \<or> mc = ?ddf" for lb mc
    using that
    by (auto simp: build_ddf_dvf_model_graph_def sym_util_assembling_def sym_util_def
          build_inputs_spec_def bind_err_def ddf_dvf_forward_def Let_def split: prod.splits)
  have built: "\<exists>m. build_ddf_dvf_model ?U sym_layers [2, 2, 2] [4, 4, 4] 2 lb 1 mc ?c = Inr m"
    if mc: "mc = ?dvf \<or> mc = ?ddf" for lb mc
  proof -
    from gr [OF mc] obtain g where
      g: "build_ddf_dvf_model_graph ?U sym_layers [2, 2, 2] [4, 4, 4] 2 lb 1 mc = Inr g" and
      l: "g_fixed_label g \<noteq> None \<longrightarrow> g_pred_fixed_label g \<noteq> None"
      by blast
    from ok1 obtain ma where a: "add_ddf_loss ?U (g_model g) (g_ddf g) ?c = Inr ma"
      by blast
    from ok2 obtain mb where
      b: "add_image_loss ?U ma (g_fixed_image g) (g_pred_fixed_image g) ?c = Inr mb"
      by blast
    from ok3 [OF l] obtain mc' where
      c: "add_label_loss ?U mb (g_grid_fixed g) (g_fixed_label g) (g_pred_fixed_label g) ?c =
            Inr mc'"
      by blast
    show ?thesis
      unfolding build_ddf_dvf_model_def g by (simp add: bind_err_def a b c)
  qed
  from built [of ?dvf True] obtain m1 where
    m1: "build_ddf_dvf_model ?U sym_layers [2, 2, 2] [4, 4, 4] 2 True 1 ?dvf ?c = Inr m1"
    by blast
  from built [of ?ddf False] obtain m2 where
    m2: "build_ddf_dvf_model ?U sym_layers [2, 2, 2] [4, 4, 4] 2 False 1 ?ddf ?c = Inr m2"
    by blast
  have bi: "build_inputs ?U ms fs n b lb = Some (mi, fi, ml, fl, ind) \<Longrightarrow> (ml \<noteq> None) = lb"
    for ms fs n b lb mi fi ml fl ind
    by (auto simp: sym_util_assembling_def sym_util_def build_inputs_spec_def split: if_splits)
  have 1: "''ddf'' \<in> dom (model_outputs m1) \<and>
         ''dvf'' \<in> dom (model_outputs m1) \<and>
         ''pred_fixed_label'' \<in> dom (model_outputs m1) \<and>
         ''moving_label'' \<in> dom (model_inputs m1) \<and>
         ''fixed_label'' \<in> dom (model_inputs m1) \<and>
         ''moving_image'' \<in> dom (model_inputs m1) \<and>
         ''fixed_image'' \<in> dom (model_inputs m1) \<and>
         ''indices'' \<in> dom (model_inputs m1)"
    using model_mapping_keys [THEN conjunct2, THEN conjunct2, rule_format, OF conjI [OF
          keep [THEN conjunct1] conjI [OF keep [THEN conjunct2, THEN conjunct1]
          conjI [OF keep [THEN conjunct2, THEN conjunct2] m1]]]]
    by (auto simp: Let_def dest: bi)
  have 2: "''ddf'' \<in> dom (model_outputs m2) \<and>
         ''dvf'' \<notin> dom (model_outputs m2) \<and>
         ''pred_fixed_label'' \<notin> dom (model_outputs m2) \<and>
         ''moving_label'' \<notin> dom (model_inputs m2) \<and>
         ''fixed_label'' \<notin> dom (model_inputs m2)"
    using model_mapping_keys [THEN conjunct2, THEN conjunct2, rule_format, OF conjI [OF
          keep [THEN conjunct1] conjI [OF keep [THEN conjunct2, THEN conjunct1]
          conjI [OF keep [THEN conjunct2, THEN conjunct2] m2]]]]
    by (auto simp: Let_def dest: bi)
  from g0 0 m1 1 m2 2 show ?thesis
    by blast
qed

text \<open>
  C5.  The moving image is resized, by \<^verbatim>\<open>Resize3d\<close> to the fixed size, exactly when
  \<^verbatim>\<open>moving_image_size\<close> differs from \<^verbatim>\<open>fixed_image_size\<close>.  With equal sizes the whole
  result of the forward pass is computed from the moving image with its channel axis
  added and nothing else: no resize is applied.  With different sizes it is computed
  from the resized one.
\<close>

theorem resize_iff_sizes_differ:
  "(moving_image_size = fixed_image_size \<longrightarrow>
      ddf_dvf_forward L backbone moving_image fixed_image moving_label
        moving_image_size fixed_image_size output_dvf =
      (let moving_image = tf_expand_dims L moving_image 4;
           raw = backbone (tf_concat L [moving_image, tf_expand_dims L fixed_image 4] 4);
           ddf = (if output_dvf then IntDVF L fixed_image_size raw else raw);
           warping = Warping L fixed_image_size
       in (if output_dvf then Some raw else None, ddf,
           call warping [ddf, tf_squeeze L moving_image 4],
           map_option (\<lambda>l. call warping [ddf, l]) moving_label,
           tf_squeeze L (grid_ref warping) 0))) \<and>
   (moving_image_size \<noteq> fixed_image_size \<longrightarrow>
      ddf_dvf_forward L backbone moving_image fixed_image moving_label
        moving_image_size fixed_image_size output_dvf =
      (let moving_image = Resize3d L fixed_image_size (tf_expand_dims L moving_image 4);
           raw = backbone (tf_concat L [moving_image, tf_expand_dims L fixed_image 4] 4);
           ddf = (if output_dvf then IntDVF L fixed_image_size raw else raw);
           warping = Warping L fixed_image_size
       in (if output_dvf then Some raw else None, ddf,
           call warping [ddf, tf_squeeze L moving_image 4],
           map_option (\<lambda>l. call warping [ddf, l]) moving_label,
           tf_squeeze L (grid_ref warping) 0)))"
proof (cases "moving_image_size = fixed_image_size")
  case True
  then show ?thesis
    by (simp add: forward_eq Let_def)
next
  case False
  then show ?thesis
    by (simp add: forward_eq Let_def)
qed

theorem resize_iff_sizes_differ_witness:
  "fst (snd (ddf_dvf_forward sym_layers sym_backbone (Node ''m'' [] []) (Node ''f'' [] []) None
      [4, 4, 4] [4, 4, 4] False)) =
     sym_backbone (Node ''concat'' [4]
       [Node ''expand_dims'' [4] [Node ''m'' [] []],
        Node ''expand_dims'' [4] [Node ''f'' [] []]]) \<and>
   fst (snd (ddf_dvf_forward sym_layers sym_backbone (Node ''m'' [] []) (Node ''f'' [] []) None
      [2, 2, 2] [4, 4, 4] False)) =
     sym_backbone (Node ''concat'' [4]
       [Node ''Resize3d'' [4, 4, 4] [Node ''expand_dims'' [4] [Node ''m'' [] []]],
        Node ''expand_dims'' [4] [Node ''f'' [] []]])"
proof -
  have eq: "[4, 4, 4] = [4, 4, 4::nat]" and ne: "[2, 2, 2] \<noteq> [4, 4, 4::nat]"
    by simp_all
  show ?thesis
    using resize_iff_sizes_differ [THEN conjunct1, rule_format, OF eq, of sym_layers sym_backbone
        "Node ''m'' [] []" "Node ''f'' [] []" None False]
      resize_iff_sizes_differ [THEN conjunct2, rule_format, OF ne, of sym_layers sym_backbone
        "Node ''m'' [] []" "Node ''f'' [] []" None False]
    by (simp add: sym_layers_def Let_def)
qed

text \<open>
  C6.  The warped label is the warping layer of the fixed size applied to the same
  displacement field as for the moving image and to the moving label as it was
  supplied, whether or not the sizes differ (only the moving image goes through
  \<^verbatim>\<open>Resize3d\<close>); without a moving label it is \<^verbatim>\<open>None\<close>.
\<close>

theorem label_warped_unresized:
  "\<forall>dvf ddf pred_fixed_image pred_fixed_label grid_fixed.
      ddf_dvf_forward L backbone moving_image fixed_image moving_label
        moving_image_size fixed_image_size output_dvf =
        (dvf, ddf, pred_fixed_image, pred_fixed_label, grid_fixed) \<longrightarrow>
      pred_fixed_image =
        call (Warping L fixed_image_size)
          [ddf, tf_squeeze L
             (if moving_image_size \<noteq> fixed_image_size
              then Resize3d L fixed_image_size (tf_expand_dims L moving_image 4)
              else tf_expand_dims L moving_image 4) 4] \<and>
      pred_fixed_label =
        (case moving_label of
           None \<Rightarrow> None
         | Some l \<Rightarrow> Some (call (Warping L fixed_image_size) [ddf, l]))"
proof (cases moving_label)
  case None
  then show ?thesis
    by (auto simp: forward_eq Let_def)
next
  case (Some l)
  then show ?thesis
    by (auto simp: forward_eq Let_def)
qed

theorem label_warped_unresized_witness:
  "snd (snd (snd (ddf_dvf_forward sym_layers sym_backbone (Node ''m'' [] []) (Node ''f'' [] [])
      (Some (Node ''l'' [] [])) [2, 2, 2] [4, 4, 4] False))) =
     (Some (Node ''Warping'' [4, 4, 4]
        [sym_backbone (Node ''concat'' [4]
           [Node ''Resize3d'' [4, 4, 4] [Node ''expand_dims'' [4] [Node ''m'' [] []]],
            Node ''expand_dims'' [4] [Node ''f'' [] []]]),
         Node ''l'' [] []]),
      Node ''squeeze'' [0] [Node ''grid_ref'' [4, 4, 4] []]) \<and>
   fst (snd (snd (snd (ddf_dvf_forward sym_layers sym_backbone (Node ''m'' [] [])
      (Node ''f'' [] []) None [2, 2, 2] [4, 4, 4] False)))) = None"
proof -
  obtain a b c d e where
    fw: "ddf_dvf_forward sym_layers sym_backbone (Node ''m'' [] []) (Node ''f'' [] [])
           (Some (Node ''l'' [] [])) [2, 2, 2] [4, 4, 4] False = (a, b, c, d, e)"
    by (rule prod_cases5)
  obtain a' b' c' d' e' where
    fw': "ddf_dvf_forward sym_layers sym_backbone (Node ''m'' [] []) (Node ''f'' [] [])
           None [2, 2, 2] [4, 4, 4] False = (a', b', c', d', e')"
    by (rule prod_cases5)
  have b: "b = sym_backbone (Node ''concat'' [4]
           [Node ''Resize3d'' [4, 4, 4] [Node ''expand_dims'' [4] [Node ''m'' [] []]],
            Node ''expand_dims'' [4] [Node ''f'' [] []]])"
    and e: "e = Node ''squeeze'' [0] [Node ''grid_ref'' [4, 4, 4] []]"
    using fw by (simp_all add: forward_eq sym_layers_def Let_def)
  have d: "d = Some (Node ''Warping'' [4, 4, 4] [b, Node ''l'' [] []])"
    using label_warped_unresized [rule_format, OF fw] by (simp add: sym_layers_def)
  have d': "d' = None"
    using label_warped_unresized [rule_format, OF fw'] by simp
  from b d e d' show ?thesis
    unfolding fw fw' by simp
qed

text \<open>
  C7.  The input of the backbone is the concatenation, along axis 4, of the moving image
  (resized if the sizes differ) and the fixed image, in that order, each with its
  channel axis added; the output of the backbone is, unchanged, the velocity field in
  the mode \<^verbatim>\<open>dvf\<close> and the displacement field otherwise.  Under the shape facts above,
  for a moving image of shape \<open>b # moving_image_size\<close> and a fixed image of shape
  \<open>b # fixed_image_size\<close>, the input has shape \<open>b # fixed_image_size @ [2]\<close>.
\<close>

theorem backbone_adapter:
  "\<forall>dvf ddf pred_fixed_image pred_fixed_label grid_fixed.
      ddf_dvf_forward L backbone moving_image fixed_image moving_label
        moving_image_size fixed_image_size output_dvf =
        (dvf, ddf, pred_fixed_image, pred_fixed_label, grid_fixed) \<longrightarrow>
      (let inputs = tf_concat L
                   [if moving_image_size \<noteq> fixed_image_size
                    then Resize3d L fixed_image_size (tf_expand_dims L moving_image 4)
                    else tf_expand_dims L moving_image 4,
                    tf_expand_dims L fixed_image 4] 4
       in (if output_dvf then dvf = Some (backbone inputs) else ddf = backbone inputs) \<and>
          (tf_shape_laws L sh \<and> sh moving_image = b # moving_image_size \<and>
           sh fixed_image = b # fixed_image_size \<and> length moving_image_size = 3 \<and>
           length fixed_image_size = 3 \<longrightarrow>
           sh inputs = b # fixed_image_size @ [2]))"
proof (intro allI impI)
  fix dvf ddf pred_fixed_image pred_fixed_label grid_fixed
  assume fw: "ddf_dvf_forward L backbone moving_image fixed_image moving_label
        moving_image_size fixed_image_size output_dvf =
        (dvf, ddf, pred_fixed_image, pred_fixed_label, grid_fixed)"
  let ?mi = "if moving_image_size \<noteq> fixed_image_size
                    then Resize3d L fixed_image_size (tf_expand_dims L moving_image 4)
                    else tf_expand_dims L moving_image 4"
  let ?inputs = "tf_concat L [?mi, tf_expand_dims L fixed_image 4] 4"
  have flow: "if output_dvf then dvf = Some (backbone ?inputs) else ddf = backbone ?inputs"
    using fw by (auto simp: forward_eq Let_def)
  have shape: "sh ?inputs = b # fixed_image_size @ [2]"
    if laws: "tf_shape_laws L sh" and m: "sh moving_image = b # moving_image_size"
      and f: "sh fixed_image = b # fixed_image_size" and lm: "length moving_image_size = 3"
      and lf: "length fixed_image_size = 3"
  proof -
    have em: "sh (tf_expand_dims L moving_image 4) = b # moving_image_size @ [1]"
      using law_expand_dims [OF laws, of moving_image] m lm by simp
    have ef: "sh (tf_expand_dims L fixed_image 4) = (b # fixed_image_size) @ [1]"
      using law_expand_dims [OF laws, of fixed_image] f lf by simp
    have "sh (Resize3d L fixed_image_size (tf_expand_dims L moving_image 4)) =
            b # fixed_image_size @ [1]"
      using law_Resize3d [OF laws em lm lf] .
    with em have mi: "sh ?mi = (b # fixed_image_size) @ [1]"
      by auto
    have "sh (tf_concat L [?mi, tf_expand_dims L fixed_image 4] 4) =
            (b # fixed_image_size) @ [1 + 1]"
      using lf by (intro law_concat [OF laws mi ef]) simp
    then show ?thesis by simp
  qed
  show "let inputs = ?inputs
       in (if output_dvf then dvf = Some (backbone inputs) else ddf = backbone inputs) \<and>
          (tf_shape_laws L sh \<and> sh moving_image = b # moving_image_size \<and>
           sh fixed_image = b # fixed_image_size \<and> length moving_image_size = 3 \<and>
           length fixed_image_size = 3 \<longrightarrow>
           sh inputs = b # fixed_image_size @ [2])"
    using flow shape unfolding Let_def by blast
qed


theorem backbone_adapter_witness:
  "tf_shape_laws shape_layers (\<lambda>s. s) \<and>
   fst (snd (ddf_dvf_forward shape_layers (\<lambda>s. butlast s @ [3]) [1, 2, 2, 2] [1, 4, 4, 4] None
      [2, 2, 2] [4, 4, 4] False)) =
     butlast (tf_concat shape_layers
       [Resize3d shape_layers [4, 4, 4] (tf_expand_dims shape_layers [1, 2, 2, 2] 4),
        tf_expand_dims shape_layers [1, 4, 4, 4] 4] 4) @ [3] \<and>
   tf_concat shape_layers
       [Resize3d shape_layers [4, 4, 4] (tf_expand_dims shape_layers [1, 2, 2, 2] 4),
        tf_expand_dims shape_layers [1, 4, 4, 4] 4] 4 = [1, 4, 4, 4, 2]"
proof -
  obtain a b c d e where
    fw: "ddf_dvf_forward shape_layers (\<lambda>s. butlast s @ [3]) [1, 2, 2, 2] [1, 4, 4, 4] None
           [2, 2, 2] [4, 4, 4] False = (a, b, c, d, e)"
    by (rule prod_cases5)
  from backbone_adapter [rule_format, OF fw, of "\<lambda>s. s" 1] shape_layers_laws
  show ?thesis
    unfolding fw by (simp add: Let_def)
qed

text \<open>
  C9.  The forward pass is deterministic.  In the reading where every operation is a
  relation, two runs on the same arguments return the same tuple as soon as every
  operation, the backbone included, returns at most one value for given arguments and
  layer objects constructed for the same size behave alike (first part).  Whatever the
  operations are, every run constructs one warping layer; the warped image is the value
  of a call of that layer on the displacement field and the squeezed, possibly resized,
  moving image, the warped label is the value of a call of the same layer on the same
  displacement field and the moving label, and the grid returned is the reference grid
  of that same layer with axis 0 squeezed (second part).  When the operations are
  functions, the runs are exactly the values of \<open>ddf_dvf_forward\<close>: there is one
  run, and one result (third part), and in it the two warps are calls of
  \<^verbatim>\<open>Warping(fixed_image_size)\<close> with the arguments written out below, the grid being the
  squeezed reference grid of \<^verbatim>\<open>Warping(fixed_image_size)\<close> (fourth part).  No statement of
  the forward pass modifies a value that another one reads: the rule for a run has no
  state, and its premises hold or fail whatever the order they are checked in.
\<close>

theorem forward_deterministic:
  "(single_valued_ops R \<and> (\<forall>x y y'. backbone_rel x y \<and> backbone_rel x y' \<longrightarrow> y = y') \<and>
    forward_run R backbone_rel moving_image fixed_image moving_label moving_image_size
      fixed_image_size output_dvf r \<and>
    forward_run R backbone_rel moving_image fixed_image moving_label moving_image_size
      fixed_image_size output_dvf r' \<longrightarrow>
      r = r') \<and>
   (\<forall>dvf ddf pred_fixed_image pred_fixed_label grid_fixed.
      forward_run R backbone_rel moving_image fixed_image moving_label moving_image_size
        fixed_image_size output_dvf (dvf, ddf, pred_fixed_image, pred_fixed_label, grid_fixed) \<longrightarrow>
      (\<exists>warping moving_image1 moving_image2 squeezed.
         Warping_rel R fixed_image_size warping \<and>
         tf_expand_dims_rel R moving_image 4 moving_image1 \<and>
         (if moving_image_size \<noteq> fixed_image_size
          then Resize3d_rel R fixed_image_size moving_image1 moving_image2
          else moving_image2 = moving_image1) \<and>
         tf_squeeze_rel R moving_image2 4 squeezed \<and>
         call_rel R warping [ddf, squeezed] pred_fixed_image \<and>
         (case moving_label of
            None \<Rightarrow> pred_fixed_label = None
          | Some l \<Rightarrow> \<exists>p. call_rel R warping [ddf, l] p \<and> pred_fixed_label = Some p) \<and>
         tf_squeeze_rel R (grid_ref_of R warping) 0 grid_fixed)) \<and>
   (\<forall>t. forward_run (layer_rel_of L) (\<lambda>x y. y = backbone x) moving_image fixed_image
          moving_label moving_image_size fixed_image_size output_dvf t \<longleftrightarrow>
        t = ddf_dvf_forward L backbone moving_image fixed_image moving_label moving_image_size
              fixed_image_size output_dvf) \<and>
   (\<forall>dvf ddf pred_fixed_image pred_fixed_label grid_fixed.
      ddf_dvf_forward L backbone moving_image fixed_image moving_label moving_image_size
        fixed_image_size output_dvf =
        (dvf, ddf, pred_fixed_image, pred_fixed_label, grid_fixed) \<longrightarrow>
      pred_fixed_image =
        call (Warping L fixed_image_size)
          [ddf, tf_squeeze L
             (if moving_image_size \<noteq> fixed_image_size
              then Resize3d L fixed_image_size (tf_expand_dims L moving_image 4)
              else tf_expand_dims L moving_image 4) 4] \<and>
      pred_fixed_label =
        map_option (\<lambda>l. call (Warping L fixed_image_size) [ddf, l]) moving_label \<and>
      grid_fixed = tf_squeeze L (grid_ref (Warping L fixed_image_size)) 0)"
proof (intro conjI impI allI)
  assume "single_valued_ops R \<and> (\<forall>x y y'. backbone_rel x y \<and> backbone_rel x y' \<longrightarrow> y = y') \<and>
    forward_run R backbone_rel moving_image fixed_image moving_label moving_image_size
      fixed_image_size output_dvf r \<and>
    forward_run R backbone_rel moving_image fixed_image moving_label moving_image_size
      fixed_image_size output_dvf r'"
  then show "r = r'"
    using forward_run_single_valued [of R backbone_rel moving_image fixed_image moving_label
        moving_image_size fixed_image_size output_dvf r r']
    by (elim conjE) simp
next
  fix dvf ddf pred_fixed_image pred_fixed_label grid_fixed
  assume "forward_run R backbone_rel moving_image fixed_image moving_label moving_image_size
        fixed_image_size output_dvf (dvf, ddf, pred_fixed_image, pred_fixed_label, grid_fixed)"
  then show "\<exists>warping moving_image1 moving_image2 squeezed.
         Warping_rel R fixed_image_size warping \<and>
         tf_expand_dims_rel R moving_image 4 moving_image1 \<and>
         (if moving_image_size \<noteq> fixed_image_size
          then Resize3d_rel R fixed_image_size moving_image1 moving_image2
          else moving_image2 = moving_image1) \<and>
         tf_squeeze_rel R moving_image2 4 squeezed \<and>
         call_rel R warping [ddf, squeezed] pred_fixed_image \<and>
         (case moving_label of
            None \<Rightarrow> pred_fixed_label = None
          | Some l \<Rightarrow> \<exists>p. call_rel R warping [ddf, l] p \<and> pred_fixed_label = Some p) \<and>
         tf_squeeze_rel R (grid_ref_of R warping) 0 grid_fixed"
    unfolding forward_run.simps by blast
next
  fix t
  show "forward_run (layer_rel_of L) (\<lambda>x y. y = backbone x) moving_image fixed_image
          moving_label moving_image_size fixed_image_size output_dvf t \<longleftrightarrow>
        t = ddf_dvf_forward L backbone moving_image fixed_image moving_label moving_image_size
              fixed_image_size output_dvf"
    by (rule forward_run_layer_rel_of)
next
  fix dvf ddf pred_fixed_image pred_fixed_label grid_fixed
  assume fw: "ddf_dvf_forward L backbone moving_image fixed_image moving_label
        moving_image_size fixed_image_size output_dvf =
        (dvf, ddf, pred_fixed_image, pred_fixed_label, grid_fixed)"
  then show "pred_fixed_image =
        call (Warping L fixed_image_size)
          [ddf, tf_squeeze L
             (if moving_image_size \<noteq> fixed_image_size
              then Resize3d L fixed_image_size (tf_expand_dims L moving_image 4)
              else tf_expand_dims L moving_image 4) 4]"
    by (auto simp: forward_eq Let_def)
  from fw show "pred_fixed_label =
        map_option (\<lambda>l. call (Warping L fixed_image_size) [ddf, l]) moving_label"
    by (auto simp: forward_eq Let_def)
  from fw show "grid_fixed = tf_squeeze L (grid_ref (Warping L fixed_image_size)) 0"
    by (auto simp: forward_eq Let_def)
qed

theorem forward_deterministic_witness:
  "ddf_dvf_forward sym_layers sym_backbone (Node ''m'' [] []) (Node ''f'' [] [])
     (Some (Node ''l'' [] [])) [2, 2, 2] [4, 4, 4] False =
     (None,
      Node ''backbone'' []
        [Node ''concat'' [4]
           [Node ''Resize3d'' [4, 4, 4] [Node ''expand_dims'' [4] [Node ''m'' [] []]],
            Node ''expand_dims'' [4] [Node ''f'' [] []]]],
      Node ''Warping'' [4, 4, 4]
        [Node ''backbone'' []
           [Node ''concat'' [4]
              [Node ''Resize3d'' [4, 4, 4] [Node ''expand_dims'' [4] [Node ''m'' [] []]],
               Node ''expand_dims'' [4] [Node ''f'' [] []]]],
         Node ''squeeze'' [4]
           [Node ''Resize3d'' [4, 4, 4] [Node ''expand_dims'' [4] [Node ''m'' [] []]]]],
      Some (Node ''Warping'' [4, 4, 4]
        [Node ''backbone'' []
           [Node ''concat'' [4]
              [Node ''Resize3d'' [4, 4, 4] [Node ''expand_dims'' [4] [Node ''m'' [] []]],
               Node ''expand_dims'' [4] [Node ''f'' [] []]]],
         Node ''l'' [] []]),
      Node ''squeeze'' [0] [Node ''grid_ref'' [4, 4, 4] []]) \<and>
   (\<exists>warping squeezed.
      Warping_rel (layer_rel_of sym_layers) [4, 4, 4] warping \<and>
      call_rel (layer_rel_of sym_layers) warping
        [Node ''backbone'' []
           [Node ''concat'' [4]
              [Node ''Resize3d'' [4, 4, 4] [Node ''expand_dims'' [4] [Node ''m'' [] []]],
               Node ''expand_dims'' [4] [Node ''f'' [] []]]],
         squeezed]
        (Node ''Warping'' [4, 4, 4]
          [Node ''backbone'' []
             [Node ''concat'' [4]
                [Node ''Resize3d'' [4, 4, 4] [Node ''expand_dims'' [4] [Node ''m'' [] []]],
                 Node ''expand_dims'' [4] [Node ''f'' [] []]]],
           Node ''squeeze'' [4]
             [Node ''Resize3d'' [4, 4, 4] [Node ''expand_dims'' [4] [Node ''m'' [] []]]]]) \<and>
      call_rel (layer_rel_of sym_layers) warping
        [Node ''backbone'' []
           [Node ''concat'' [4]
              [Node ''Resize3d'' [4, 4, 4] [Node ''expand_dims'' [4] [Node ''m'' [] []]],
               Node ''expand_dims'' [4] [Node ''f'' [] []]]],
         Node ''l'' [] []]
        (Node ''Warping'' [4, 4, 4]
          [Node ''backbone'' []
             [Node ''concat'' [4]
                [Node ''Resize3d'' [4, 4, 4] [Node ''expand_dims'' [4] [Node ''m'' [] []]],
                 Node ''expand_dims'' [4] [Node ''f'' [] []]]],
           Node ''l'' [] []]) \<and>
      tf_squeeze_rel (layer_rel_of sym_layers) (grid_ref_of (layer_rel_of sym_layers) warping) 0
        (Node ''squeeze'' [0] [Node ''grid_ref'' [4, 4, 4] []])) \<and>
   Node ''squeeze'' [0] [Node ''grid_ref'' [4, 4, 4] []] =
     tf_squeeze sym_layers (grid_ref (Warping sym_layers [4, 4, 4])) 0"
proof -
  let ?R = "layer_rel_of sym_layers"
  let ?bb = "\<lambda>x y. y = sym_backbone x"
  let ?m2 = "Node ''Resize3d'' [4, 4, 4] [Node ''expand_dims'' [4] [Node ''m'' [] []]]"
  let ?ddf = "Node ''backbone'' []
        [Node ''concat'' [4] [?m2, Node ''expand_dims'' [4] [Node ''f'' [] []]]]"
  let ?pfi = "Node ''Warping'' [4, 4, 4] [?ddf, Node ''squeeze'' [4] [?m2]]"
  let ?pfl = "Some (Node ''Warping'' [4, 4, 4] [?ddf, Node ''l'' [] []])"
  let ?gf = "Node ''squeeze'' [0] [Node ''grid_ref'' [4, 4, 4] []]"
  let ?fw = "ddf_dvf_forward sym_layers sym_backbone (Node ''m'' [] []) (Node ''f'' [] [])
     (Some (Node ''l'' [] [])) [2, 2, 2] [4, 4, 4] False"
  have sv: "single_valued_ops ?R"
    by (simp add: single_valued_ops_def layer_rel_of_def)
  have bb: "\<forall>x y y'. ?bb x y \<and> ?bb x y' \<longrightarrow> y = y'"
    by simp
  have run1: "forward_run ?R ?bb (Node ''m'' [] []) (Node ''f'' [] [])
     (Some (Node ''l'' [] [])) [2, 2, 2] [4, 4, 4] False (None, ?ddf, ?pfi, ?pfl, ?gf)"
    by (auto simp: forward_run.simps layer_rel_of_def sym_layers_def sym_backbone_def)
  have run2: "forward_run ?R ?bb (Node ''m'' [] []) (Node ''f'' [] [])
     (Some (Node ''l'' [] [])) [2, 2, 2] [4, 4, 4] False ?fw"
    using forward_deterministic [THEN conjunct2, THEN conjunct2, THEN conjunct1, rule_format,
        of sym_layers sym_backbone "Node ''m'' [] []" "Node ''f'' [] []"
          "Some (Node ''l'' [] [])" "[2, 2, 2]" "[4, 4, 4]" False ?fw]
    by simp
  have 1: "?fw = (None, ?ddf, ?pfi, ?pfl, ?gf)"
    using forward_deterministic [THEN conjunct1, THEN mp, OF conjI [OF sv conjI [OF bb
          conjI [OF run2 run1]]]] .
  have "\<exists>warping moving_image1 moving_image2 squeezed.
         Warping_rel ?R [4, 4, 4] warping \<and>
         tf_expand_dims_rel ?R (Node ''m'' [] []) 4 moving_image1 \<and>
         (if [2, 2, 2] \<noteq> [4, 4, 4::nat]
          then Resize3d_rel ?R [4, 4, 4] moving_image1 moving_image2
          else moving_image2 = moving_image1) \<and>
         tf_squeeze_rel ?R moving_image2 4 squeezed \<and>
         call_rel ?R warping [?ddf, squeezed] ?pfi \<and>
         (case Some (Node ''l'' [] []) of
            None \<Rightarrow> ?pfl = None
          | Some l \<Rightarrow> \<exists>p. call_rel ?R warping [?ddf, l] p \<and> ?pfl = Some p) \<and>
         tf_squeeze_rel ?R (grid_ref_of ?R warping) 0 ?gf"
    using forward_deterministic [THEN conjunct2, THEN conjunct1, rule_format, OF run1] .
  then have 2: "\<exists>warping squeezed.
      Warping_rel ?R [4, 4, 4] warping \<and>
      call_rel ?R warping [?ddf, squeezed] ?pfi \<and>
      call_rel ?R warping [?ddf, Node ''l'' [] []] (Node ''Warping'' [4, 4, 4] [?ddf, Node ''l'' [] []]) \<and>
      tf_squeeze_rel ?R (grid_ref_of ?R warping) 0 ?gf"
    by auto
  have 3: "?gf = tf_squeeze sym_layers (grid_ref (Warping sym_layers [4, 4, 4])) 0"
    using forward_deterministic [THEN conjunct2, THEN conjunct2, THEN conjunct2, rule_format,
        OF 1]
    by simp
  from 1 2 3 show ?thesis
    by blast
qed

section \<open>Properties of the loss and metric assembler\<close>

text \<open>
  C3.  Whenever the assembler returns, the regularization loss, the mean of
  \<^verbatim>\<open>local_displacement_energy\<close> on the displacement field times the regularization
  weight, is the first loss it added, whatever the value \<open>w\<close> of that weight (no
  condition on \<open>w\<close> appears: zero and negative weights are applied as well); the image
  dissimilarity loss is the next loss added if the image weight is greater than 0, and
  no image loss is computed or added otherwise.  For each of the two terms that is
  added, the raw and the weighted value are the metrics reported with it.  What follows
  them belongs to the label section: nothing without a fixed label.
\<close>

theorem regularization_always_image_gated:
  "\<forall>m'. ddf_dvf_add_loss_metric F model ddf grid_fixed fixed_image fixed_label
          pred_fixed_image pred_fixed_label loss_config = (m', None) \<longrightarrow>
    (\<exists>kw energy w dis ikw iw label_losses label_metrics.
       subscript loss_config ''regularization'' = Inr (CDict kw) \<and>
       local_displacement_energy F ddf kw = Some energy \<and>
       map_of kw ''weight'' = Some (CNum w) \<and>
       subscript loss_config ''dissimilarity'' = Inr dis \<and>
       subscript dis ''image'' = Inr (CDict ikw) \<and>
       map_of ikw ''weight'' = Some (CNum iw) \<and>
       (case fixed_label of
          None \<Rightarrow> label_losses = [] \<and> label_metrics = []
        | Some y \<Rightarrow> length label_losses = 1 \<and> length label_metrics = 7) \<and>
       (let loss_reg = tf_reduce_mean F energy;
            weighted_loss_reg = tf_multiply F loss_reg w
        in if iw > 0
           then \<exists>d. image_dissimilarity_fn F fixed_image pred_fixed_image ikw = Some d \<and>
                  (let loss_image = tf_reduce_mean F d;
                       weighted_loss_image = tf_multiply F loss_image iw
                   in losses m' =
                        losses model @ [weighted_loss_reg, weighted_loss_image] @ label_losses \<and>
                      metrics m' =
                        metrics model @
                        [(loss_reg, ''loss/regularization'', ''mean''),
                         (weighted_loss_reg, ''loss/weighted_regularization'', ''mean''),
                         (loss_image, ''loss/image_dissimilarity'', ''mean''),
                         (weighted_loss_image, ''loss/weighted_image_dissimilarity'',
                          ''mean'')] @ label_metrics)
           else losses m' = losses model @ [weighted_loss_reg] @ label_losses \<and>
                metrics m' =
                  metrics model @
                  [(loss_reg, ''loss/regularization'', ''mean''),
                   (weighted_loss_reg, ''loss/weighted_regularization'', ''mean'')] @
                  label_metrics))"
proof (intro allI impI)
  fix m'
  assume "ddf_dvf_add_loss_metric F model ddf grid_fixed fixed_image fixed_label
          pred_fixed_image pred_fixed_label loss_config = (m', None)"
  then obtain m1 m2 where
    r: "regularization_section F model ddf loss_config = (m1, None)" and
    i: "image_section F m1 fixed_image pred_fixed_image loss_config = (m2, None)" and
    l: "label_section F m2 grid_fixed fixed_label pred_fixed_label loss_config = (m', None)"
    by (auto simp: assembler_None_iff)
  from r obtain kw energy w where
    kw: "subscript loss_config ''regularization'' = Inr (CDict kw)"
      "local_displacement_energy F ddf kw = Some energy"
      "map_of kw ''weight'' = Some (CNum w)" and
    m1: "losses m1 = losses model @ [tf_multiply F (tf_reduce_mean F energy) w]"
      "metrics m1 = metrics model @
            [(tf_reduce_mean F energy, ''loss/regularization'', ''mean''),
             (tf_multiply F (tf_reduce_mean F energy) w, ''loss/weighted_regularization'',
              ''mean'')]"
    by (auto simp: regularization_section_None_iff)
  from i obtain dis ikw iw where
    ikw: "subscript loss_config ''dissimilarity'' = Inr dis"
      "subscript dis ''image'' = Inr (CDict ikw)"
      "map_of ikw ''weight'' = Some (CNum iw)" and
    m2: "if iw > 0
        then \<exists>d. image_dissimilarity_fn F fixed_image pred_fixed_image ikw = Some d \<and>
               m2 = m1
                 \<lparr>losses := losses m1 @ [tf_multiply F (tf_reduce_mean F d) iw],
                  metrics := metrics m1 @
                    [(tf_reduce_mean F d, ''loss/image_dissimilarity'', ''mean''),
                     (tf_multiply F (tf_reduce_mean F d) iw,
                      ''loss/weighted_image_dissimilarity'', ''mean'')]\<rparr>
        else m2 = m1"
    unfolding image_section_None_iff by blast
  from l obtain ll lm where
    m': "losses m' = losses m2 @ ll" "metrics m' = metrics m2 @ lm" and
    ll: "case fixed_label of None \<Rightarrow> ll = [] \<and> lm = []
         | Some y \<Rightarrow> length ll = 1 \<and> length lm = 7"
    by (cases fixed_label) (auto simp: label_section_None_iff)
  show "\<exists>kw energy w dis ikw iw label_losses label_metrics.
       subscript loss_config ''regularization'' = Inr (CDict kw) \<and>
       local_displacement_energy F ddf kw = Some energy \<and>
       map_of kw ''weight'' = Some (CNum w) \<and>
       subscript loss_config ''dissimilarity'' = Inr dis \<and>
       subscript dis ''image'' = Inr (CDict ikw) \<and>
       map_of ikw ''weight'' = Some (CNum iw) \<and>
       (case fixed_label of
          None \<Rightarrow> label_losses = [] \<and> label_metrics = []
        | Some y \<Rightarrow> length label_losses = 1 \<and> length label_metrics = 7) \<and>
       (let loss_reg = tf_reduce_mean F energy;
            weighted_loss_reg = tf_multiply F loss_reg w
        in if iw > 0
           then \<exists>d. image_dissimilarity_fn F fixed_image pred_fixed_image ikw = Some d \<and>
                  (let loss_image = tf_reduce_mean F d;
                       weighted_loss_image = tf_multiply F loss_image iw
                   in losses m' =
                        losses model @ [weighted_loss_reg, weighted_loss_image] @ label_losses \<and>
                      metrics m' =
                        metrics model @
                        [(loss_reg, ''loss/regularization'', ''mean''),
                         (weighted_loss_reg, ''loss/weighted_regularization'', ''mean''),
                         (loss_image, ''loss/image_dissimilarity'', ''mean''),
                         (weighted_loss_image, ''loss/weighted_image_dissimilarity'',
                          ''mean'')] @ label_metrics)
           else losses m' = losses model @ [weighted_loss_reg] @ label_losses \<and>
                metrics m' =
                  metrics model @
                  [(loss_reg, ''loss/regularization'', ''mean''),
                   (weighted_loss_reg, ''loss/weighted_regularization'', ''mean'')] @
                  label_metrics)"
    apply (rule exI [of _ kw], rule exI [of _ energy], rule exI [of _ w], rule exI [of _ dis],
        rule exI [of _ ikw], rule exI [of _ iw], rule exI [of _ ll], rule exI [of _ lm])
    using kw ikw ll m2 m1 m'
    by (auto simp: Let_def)
qed


theorem regularization_always_image_gated_witness:
  "(\<exists>m'. ddf_dvf_add_loss_metric sym_losses sym_model (Node ''ddf'' [] []) (Node ''grid'' [] [])
            (Node ''f'' [] []) None (Node ''pf'' [] []) None
            (CDict [(''regularization'', CDict [(''weight'', CNum (- 1))]),
                    (''dissimilarity'', CDict [(''image'', CDict [(''weight'', CNum 2)])])]) =
            (m', None) \<and>
          losses m' =
            [Times (Node ''reduce_mean'' []
                      [Node ''local_displacement_energy'' [] [Node ''ddf'' [] []]]) (- 1),
             Times (Node ''reduce_mean'' []
                      [Node ''image_dissimilarity'' [] [Node ''f'' [] [], Node ''pf'' [] []]]) 2]) \<and>
   (\<exists>m'. ddf_dvf_add_loss_metric sym_losses sym_model (Node ''ddf'' [] []) (Node ''grid'' [] [])
            (Node ''f'' [] []) None (Node ''pf'' [] []) None
            (CDict [(''regularization'', CDict [(''weight'', CNum 0)]),
                    (''dissimilarity'', CDict [(''image'', CDict [(''weight'', CNum 0)])])]) =
            (m', None) \<and>
          losses m' =
            [Times (Node ''reduce_mean'' []
                      [Node ''local_displacement_energy'' [] [Node ''ddf'' [] []]]) 0])"
proof -
  let ?a = "CDict [(''regularization'', CDict [(''weight'', CNum (- 1))]),
                    (''dissimilarity'', CDict [(''image'', CDict [(''weight'', CNum 2)])])]"
  let ?b = "CDict [(''regularization'', CDict [(''weight'', CNum 0)]),
                    (''dissimilarity'', CDict [(''image'', CDict [(''weight'', CNum 0)])])]"
  have "\<exists>m'. ddf_dvf_add_loss_metric sym_losses sym_model (Node ''ddf'' [] []) (Node ''grid'' [] [])
            (Node ''f'' [] []) None (Node ''pf'' [] []) None ?a = (m', None)"
    by (simp add: ddf_dvf_add_loss_metric_def or_raise_def and_then_def sym_losses_def Let_def)
  then obtain ma where
    ma: "ddf_dvf_add_loss_metric sym_losses sym_model (Node ''ddf'' [] []) (Node ''grid'' [] [])
            (Node ''f'' [] []) None (Node ''pf'' [] []) None ?a = (ma, None)" ..
  have "\<exists>m'. ddf_dvf_add_loss_metric sym_losses sym_model (Node ''ddf'' [] []) (Node ''grid'' [] [])
            (Node ''f'' [] []) None (Node ''pf'' [] []) None ?b = (m', None)"
    by (simp add: ddf_dvf_add_loss_metric_def or_raise_def and_then_def sym_losses_def Let_def)
  then obtain mb where
    mb: "ddf_dvf_add_loss_metric sym_losses sym_model (Node ''ddf'' [] []) (Node ''grid'' [] [])
            (Node ''f'' [] []) None (Node ''pf'' [] []) None ?b = (mb, None)" ..
  have a: "losses ma =
            [Times (Node ''reduce_mean'' []
                      [Node ''local_displacement_energy'' [] [Node ''ddf'' [] []]]) (- 1),
             Times (Node ''reduce_mean'' []
                      [Node ''image_dissimilarity'' [] [Node ''f'' [] [], Node ''pf'' [] []]]) 2]"
    using regularization_always_image_gated [rule_format, OF ma]
    by (auto simp: sym_losses_def sym_model_def keras_Model_def Let_def)
  have b: "losses mb =
            [Times (Node ''reduce_mean'' []
                      [Node ''local_displacement_energy'' [] [Node ''ddf'' [] []]]) 0]"
    using regularization_always_image_gated [rule_format, OF mb]
    by (auto simp: sym_losses_def sym_model_def keras_Model_def Let_def)
  from ma mb a b show ?thesis
    by blast
qed

text \<open>
  C4.  The assembler run with a fixed label returns what the run without one returns,
  plus the terms of the label section; without a fixed label nothing is added.  With
  one, exactly one loss is added, the label dissimilarity, under no condition on any
  weight; the value reported as weighted label dissimilarity is the raw value; the two
  Dice scores, the centroid distance and the two foreground proportions are added as
  metrics only.
\<close>

theorem label_terms_iff_fixed_label:
  "\<forall>m'. ddf_dvf_add_loss_metric F model ddf grid_fixed fixed_image fixed_label
          pred_fixed_image pred_fixed_label loss_config = (m', None) \<longrightarrow>
    (\<exists>m0. ddf_dvf_add_loss_metric F model ddf grid_fixed fixed_image None
            pred_fixed_image pred_fixed_label loss_config = (m0, None) \<and>
      (case fixed_label of
         None \<Rightarrow> m' = m0
       | Some y \<Rightarrow>
           (\<exists>dis label fn p.
              subscript loss_config ''dissimilarity'' = Inr dis \<and>
              subscript dis ''label'' = Inr label \<and>
              get_dissimilarity_fn F label = Some fn \<and>
              pred_fixed_label = Some p \<and>
              (let loss_label = tf_reduce_mean F (fn y p);
                   weighted_loss_label = loss_label
               in losses m' = losses m0 @ [weighted_loss_label] \<and>
                  metrics m' = metrics m0 @
                    [(loss_label, ''loss/label_dissimilarity'', ''mean''),
                     (weighted_loss_label, ''loss/weighted_label_dissimilarity'', ''mean''),
                     (dice_score F y p True, ''metric/dice_binary'', ''mean''),
                     (dice_score F y p False, ''metric/dice_float'', ''mean''),
                     (compute_centroid_distance F y p grid_fixed, ''metric/tre'', ''mean''),
                     (foreground_proportion F y, ''metric/foreground_label'', ''mean''),
                     (foreground_proportion F p, ''metric/foreground_pred'', ''mean'')]))))"
proof (intro allI impI)
  fix m'
  assume "ddf_dvf_add_loss_metric F model ddf grid_fixed fixed_image fixed_label
          pred_fixed_image pred_fixed_label loss_config = (m', None)"
  then obtain m1 m2 where
    r: "regularization_section F model ddf loss_config = (m1, None)" and
    i: "image_section F m1 fixed_image pred_fixed_image loss_config = (m2, None)" and
    l: "label_section F m2 grid_fixed fixed_label pred_fixed_label loss_config = (m', None)"
    by (auto simp: assembler_None_iff)
  from r i have m0: "ddf_dvf_add_loss_metric F model ddf grid_fixed fixed_image None
            pred_fixed_image pred_fixed_label loss_config = (m2, None)"
    by (auto simp: assembler_None_label)
  have "case fixed_label of
         None \<Rightarrow> m' = m2
       | Some y \<Rightarrow>
           (\<exists>dis label fn p.
              subscript loss_config ''dissimilarity'' = Inr dis \<and>
              subscript dis ''label'' = Inr label \<and>
              get_dissimilarity_fn F label = Some fn \<and>
              pred_fixed_label = Some p \<and>
              (let loss_label = tf_reduce_mean F (fn y p);
                   weighted_loss_label = loss_label
               in losses m' = losses m2 @ [weighted_loss_label] \<and>
                  metrics m' = metrics m2 @
                    [(loss_label, ''loss/label_dissimilarity'', ''mean''),
                     (weighted_loss_label, ''loss/weighted_label_dissimilarity'', ''mean''),
                     (dice_score F y p True, ''metric/dice_binary'', ''mean''),
                     (dice_score F y p False, ''metric/dice_float'', ''mean''),
                     (compute_centroid_distance F y p grid_fixed, ''metric/tre'', ''mean''),
                     (foreground_proportion F y, ''metric/foreground_label'', ''mean''),
                     (foreground_proportion F p, ''metric/foreground_pred'', ''mean'')]))"
    using l by (cases fixed_label) (auto simp: label_section_None_iff Let_def)
  with m0 show "\<exists>m0. ddf_dvf_add_loss_metric F model ddf grid_fixed fixed_image None
            pred_fixed_image pred_fixed_label loss_config = (m0, None) \<and>
      (case fixed_label of
         None \<Rightarrow> m' = m0
       | Some y \<Rightarrow>
           (\<exists>dis label fn p.
              subscript loss_config ''dissimilarity'' = Inr dis \<and>
              subscript dis ''label'' = Inr label \<and>
              get_dissimilarity_fn F label = Some fn \<and>
              pred_fixed_label = Some p \<and>
              (let loss_label = tf_reduce_mean F (fn y p);
                   weighted_loss_label = loss_label
               in losses m' = losses m0 @ [weighted_loss_label] \<and>
                  metrics m' = metrics m0 @
                    [(loss_label, ''loss/label_dissimilarity'', ''mean''),
                     (weighted_loss_label, ''loss/weighted_label_dissimilarity'', ''mean''),
                     (dice_score F y p True, ''metric/dice_binary'', ''mean''),
                     (dice_score F y p False, ''metric/dice_float'', ''mean''),
                     (compute_centroid_distance F y p grid_fixed, ''metric/tre'', ''mean''),
                     (foreground_proportion F y, ''metric/foreground_label'', ''mean''),
                     (foreground_proportion F p, ''metric/foreground_pred'', ''mean'')])))"
    by blast
qed

theorem label_terms_iff_fixed_label_witness:
  "(\<exists>m' m0.
      ddf_dvf_add_loss_metric sym_losses sym_model (Node ''ddf'' [] []) (Node ''grid'' [] [])
        (Node ''f'' [] []) (Some (Node ''fl'' [] [])) (Node ''pf'' [] []) (Some (Node ''pl'' [] []))
        (CDict [(''regularization'', CDict [(''weight'', CNum 1)]),
                (''dissimilarity'', CDict [(''image'', CDict [(''weight'', CNum 0)]),
                                           (''label'', CDict [(''name'', CStr ''dice'')])])]) =
        (m', None) \<and>
      ddf_dvf_add_loss_metric sym_losses sym_model (Node ''ddf'' [] []) (Node ''grid'' [] [])
        (Node ''f'' [] []) None (Node ''pf'' [] []) (Some (Node ''pl'' [] []))
        (CDict [(''regularization'', CDict [(''weight'', CNum 1)]),
                (''dissimilarity'', CDict [(''image'', CDict [(''weight'', CNum 0)]),
                                           (''label'', CDict [(''name'', CStr ''dice'')])])]) =
        (m0, None) \<and>
      losses m' = losses m0 @
        [Node ''reduce_mean'' []
           [Node ''label_dissimilarity'' [] [Node ''fl'' [] [], Node ''pl'' [] []]]] \<and>
      length (metrics m') = length (metrics m0) + 7)"
proof -
  let ?c = "CDict [(''regularization'', CDict [(''weight'', CNum 1)]),
                (''dissimilarity'', CDict [(''image'', CDict [(''weight'', CNum 0)]),
                                           (''label'', CDict [(''name'', CStr ''dice'')])])]"
  have "\<exists>m'. ddf_dvf_add_loss_metric sym_losses sym_model (Node ''ddf'' [] []) (Node ''grid'' [] [])
        (Node ''f'' [] []) (Some (Node ''fl'' [] [])) (Node ''pf'' [] []) (Some (Node ''pl'' [] []))
        ?c = (m', None)"
    by (simp add: ddf_dvf_add_loss_metric_def or_raise_def and_then_def sym_losses_def Let_def)
  then obtain m' where
    m': "ddf_dvf_add_loss_metric sym_losses sym_model (Node ''ddf'' [] []) (Node ''grid'' [] [])
        (Node ''f'' [] []) (Some (Node ''fl'' [] [])) (Node ''pf'' [] []) (Some (Node ''pl'' [] []))
        ?c = (m', None)" ..
  from label_terms_iff_fixed_label [rule_format, OF m'] obtain m0 where
    m0: "ddf_dvf_add_loss_metric sym_losses sym_model (Node ''ddf'' [] []) (Node ''grid'' [] [])
        (Node ''f'' [] []) None (Node ''pf'' [] []) (Some (Node ''pl'' [] [])) ?c = (m0, None)" and
    l: "losses m' = losses m0 @
        [Node ''reduce_mean'' []
           [Node ''label_dissimilarity'' [] [Node ''fl'' [] [], Node ''pl'' [] []]]]" and
    n: "length (metrics m') = length (metrics m0) + 7"
    by (auto simp: sym_losses_def Let_def)
  from m' m0 l n show ?thesis
    by blast
qed





text \<open>
  C10.  The label branch of the assembler is entered when \<^verbatim>\<open>fixed_label\<close> is not \<^verbatim>\<open>None\<close>,
  and hands \<^verbatim>\<open>pred_fixed_label\<close> to the loss functions as a tensor, without a test.  The
  failure at stake is the use of \<^verbatim>\<open>None\<close> where a tensor is required.  Under the
  precondition that \<^verbatim>\<open>fixed_label\<close> not being \<^verbatim>\<open>None\<close> implies \<^verbatim>\<open>pred_fixed_label\<close> not being
  \<^verbatim>\<open>None\<close>, no call of the assembler ends with that failure, whatever the other
  arguments are (first part).  The precondition is required: with a fixed label and
  without \<^verbatim>\<open>pred_fixed_label\<close>, a call whose first two sections complete and whose
  configuration yields the label dissimilarity function ends with that failure, the
  model being as the first two sections left it (second part).  The models that
  \<^verbatim>\<open>build_ddf_dvf_model\<close> builds maintain the precondition: with \<^verbatim>\<open>build_inputs\<close> as the
  specification describes it, in labeled mode the moving label, the fixed label and
  the warped label are all present, in unlabeled mode all three are absent (third
  part).
\<close>

theorem label_branch_precondition:
  "((fixed_label \<noteq> None \<longrightarrow> pred_fixed_label \<noteq> None) \<longrightarrow>
      snd (ddf_dvf_add_loss_metric F model ddf grid_fixed fixed_image fixed_label
        pred_fixed_image pred_fixed_label loss_config) \<noteq> Some NoneValue) \<and>
   (\<forall>m0 dis label fn.
      ddf_dvf_add_loss_metric F model ddf grid_fixed fixed_image None
        pred_fixed_image pred_fixed_label loss_config = (m0, None) \<and>
      fixed_label \<noteq> None \<and> pred_fixed_label = None \<and>
      subscript loss_config ''dissimilarity'' = Inr dis \<and>
      subscript dis ''label'' = Inr label \<and>
      get_dissimilarity_fn F label = Some fn \<longrightarrow>
      ddf_dvf_add_loss_metric F model ddf grid_fixed fixed_image fixed_label
        pred_fixed_image pred_fixed_label loss_config = (m0, Some NoneValue)) \<and>
   (\<forall>g. build_ddf_dvf_model_graph
          (U\<lparr>build_inputs := \<lambda>moving_image_size fixed_image_size index_size batch_size labeled.
               Some (build_inputs_spec keras_Input moving_image_size fixed_image_size
                       index_size batch_size labeled)\<rparr>)
          L moving_image_size fixed_image_size index_size labeled batch_size model_config =
          Inr g \<longrightarrow>
      (g_fixed_label g \<noteq> None \<longrightarrow> g_pred_fixed_label g \<noteq> None) \<and>
      (labeled \<longrightarrow>
         g_moving_label g \<noteq> None \<and> g_fixed_label g \<noteq> None \<and> g_pred_fixed_label g \<noteq> None) \<and>
      (\<not> labeled \<longrightarrow>
         g_moving_label g = None \<and> g_fixed_label g = None \<and> g_pred_fixed_label g = None))"
proof (intro conjI allI impI)
  assume "fixed_label \<noteq> None \<longrightarrow> pred_fixed_label \<noteq> None"
  then show "snd (ddf_dvf_add_loss_metric F model ddf grid_fixed fixed_image fixed_label
        pred_fixed_image pred_fixed_label loss_config) \<noteq> Some NoneValue"
    using assembler_NoneValue [of F model ddf grid_fixed fixed_image fixed_label
        pred_fixed_image pred_fixed_label loss_config]
    by blast
next
  fix m0 dis label fn
  assume h: "ddf_dvf_add_loss_metric F model ddf grid_fixed fixed_image None
        pred_fixed_image pred_fixed_label loss_config = (m0, None) \<and>
      fixed_label \<noteq> None \<and> pred_fixed_label = None \<and>
      subscript loss_config ''dissimilarity'' = Inr dis \<and>
      subscript dis ''label'' = Inr label \<and>
      get_dissimilarity_fn F label = Some fn"
  then obtain m1 where
    r: "regularization_section F model ddf loss_config = (m1, None)" and
    i: "image_section F m1 fixed_image pred_fixed_image loss_config = (m0, None)"
    by (auto simp: assembler_None_label)
  from h obtain y where y: "fixed_label = Some y"
    by auto
  from h y have "label_section F m0 grid_fixed fixed_label pred_fixed_label loss_config =
      (m0, Some NoneValue)"
    by (simp add: label_section_def or_raise_simps)
  with r i show "ddf_dvf_add_loss_metric F model ddf grid_fixed fixed_image fixed_label
        pred_fixed_image pred_fixed_label loss_config = (m0, Some NoneValue)"
    by (simp add: assembler_sections and_then_simps)
next
  fix g
  let ?U = "U\<lparr>build_inputs := \<lambda>moving_image_size fixed_image_size index_size batch_size labeled.
               Some (build_inputs_spec keras_Input moving_image_size fixed_image_size
                       index_size batch_size labeled)\<rparr>"
  assume g: "build_ddf_dvf_model_graph ?U L moving_image_size fixed_image_size index_size
          labeled batch_size model_config = Inr g"
  from g obtain mi fi ml fl ind s bb dvf ddf pfi pfl gf where
    bi: "build_inputs ?U moving_image_size fixed_image_size index_size batch_size labeled =
           Some (mi, fi, ml, fl, ind)" and
    fw: "ddf_dvf_forward L bb mi fi ml moving_image_size fixed_image_size (s = ''dvf'') =
           (dvf, ddf, pfi, pfl, gf)" and
    sel: "g_moving_label g = ml" "g_fixed_label g = fl" "g_pred_fixed_label g = pfl"
    by (rule graph_cases)
  from bi have ml: "ml \<noteq> None \<longleftrightarrow> labeled" and fl: "fl \<noteq> None \<longleftrightarrow> labeled"
    by (auto simp: build_inputs_spec_def split: if_splits)
  have pfl: "pfl \<noteq> None \<longleftrightarrow> ml \<noteq> None"
    using forward_label_iff [of L bb mi fi ml moving_image_size fixed_image_size "s = ''dvf''"] fw
    by simp
  from ml fl pfl sel show "g_pred_fixed_label g \<noteq> None" if "g_fixed_label g \<noteq> None"
    using that by simp
  from ml fl pfl sel show "g_moving_label g \<noteq> None" "g_fixed_label g \<noteq> None"
      "g_pred_fixed_label g \<noteq> None" if labeled
    using that by simp_all
  from ml fl pfl sel show "g_moving_label g = None" "g_fixed_label g = None"
      "g_pred_fixed_label g = None" if "\<not> labeled"
    using that by simp_all
qed

theorem label_branch_precondition_witness:
  "snd (ddf_dvf_add_loss_metric sym_losses sym_model (Node ''ddf'' [] []) (Node ''grid'' [] [])
     (Node ''f'' [] []) (Some (Node ''fl'' [] [])) (Node ''pf'' [] []) (Some (Node ''pl'' [] []))
     (CDict [(''regularization'', CDict [(''weight'', CNum 1)]),
             (''dissimilarity'', CDict [(''image'', CDict [(''weight'', CNum 0)]),
                                        (''label'', CDict [(''name'', CStr ''dice'')])])])) \<noteq>
     Some NoneValue \<and>
   snd (ddf_dvf_add_loss_metric sym_losses sym_model (Node ''ddf'' [] []) (Node ''grid'' [] [])
     (Node ''f'' [] []) (Some (Node ''fl'' [] [])) (Node ''pf'' [] []) None
     (CDict [(''regularization'', CDict [(''weight'', CNum 1)]),
             (''dissimilarity'', CDict [(''image'', CDict [(''weight'', CNum 0)]),
                                        (''label'', CDict [(''name'', CStr ''dice'')])])])) =
     Some NoneValue \<and>
   (\<exists>g. build_ddf_dvf_model_graph
          (sym_util\<lparr>build_inputs :=
             \<lambda>moving_image_size fixed_image_size index_size batch_size labeled.
               Some (build_inputs_spec (\<lambda>nm shape. Node nm shape []) moving_image_size
                       fixed_image_size index_size batch_size labeled)\<rparr>)
          sym_layers [2, 2, 2] [4, 4, 4] 2 True 1 (CDict [(''method'', CStr ''ddf'')]) = Inr g \<and>
        g_moving_label g \<noteq> None \<and> g_fixed_label g \<noteq> None \<and> g_pred_fixed_label g \<noteq> None) \<and>
   (\<exists>g. build_ddf_dvf_model_graph
          (sym_util\<lparr>build_inputs :=
             \<lambda>moving_image_size fixed_image_size index_size batch_size labeled.
               Some (build_inputs_spec (\<lambda>nm shape. Node nm shape []) moving_image_size
                       fixed_image_size index_size batch_size labeled)\<rparr>)
          sym_layers [2, 2, 2] [4, 4, 4] 2 False 1 (CDict [(''method'', CStr ''ddf'')]) = Inr g \<and>
        g_moving_label g = None \<and> g_fixed_label g = None \<and> g_pred_fixed_label g = None)"
proof -
  let ?c = "CDict [(''regularization'', CDict [(''weight'', CNum 1)]),
             (''dissimilarity'', CDict [(''image'', CDict [(''weight'', CNum 0)]),
                                        (''label'', CDict [(''name'', CStr ''dice'')])])]"
  let ?dis = "CDict [(''image'', CDict [(''weight'', CNum 0)]),
                     (''label'', CDict [(''name'', CStr ''dice'')])]"
  let ?fn = "\<lambda>y_true y_pred. Node ''label_dissimilarity'' [] [y_true, y_pred]"
  let ?U = "sym_util\<lparr>build_inputs :=
             \<lambda>moving_image_size fixed_image_size index_size batch_size labeled.
               Some (build_inputs_spec (\<lambda>nm shape. Node nm shape []) moving_image_size
                       fixed_image_size index_size batch_size labeled)\<rparr>"
  let ?mc = "CDict [(''method'', CStr ''ddf'')]"
  have cfg: "subscript ?c ''dissimilarity'' = Inr ?dis"
    "subscript ?dis ''label'' = Inr (CDict [(''name'', CStr ''dice'')])"
    "get_dissimilarity_fn sym_losses (CDict [(''name'', CStr ''dice'')]) = Some ?fn"
    by (simp_all add: sym_losses_def)
  have some: "(Some (Node ''fl'' [] []) \<noteq> None \<longrightarrow> Some (Node ''pl'' [] []) \<noteq> None)"
    by simp
  have "\<exists>m0. ddf_dvf_add_loss_metric sym_losses sym_model (Node ''ddf'' [] [])
      (Node ''grid'' [] []) (Node ''f'' [] []) None (Node ''pf'' [] []) None ?c = (m0, None)"
    by (simp add: ddf_dvf_add_loss_metric_def or_raise_def and_then_def sym_losses_def Let_def)
  then obtain n0 where
    n0: "ddf_dvf_add_loss_metric sym_losses sym_model (Node ''ddf'' [] [])
      (Node ''grid'' [] []) (Node ''f'' [] []) None (Node ''pf'' [] []) None ?c = (n0, None)" ..
  have 1: "snd (ddf_dvf_add_loss_metric sym_losses sym_model (Node ''ddf'' [] [])
     (Node ''grid'' [] []) (Node ''f'' [] []) (Some (Node ''fl'' [] [])) (Node ''pf'' [] [])
     (Some (Node ''pl'' [] [])) ?c) \<noteq> Some NoneValue"
    using label_branch_precondition [THEN conjunct1, THEN mp, OF some] .
  have "ddf_dvf_add_loss_metric sym_losses sym_model (Node ''ddf'' [] []) (Node ''grid'' [] [])
     (Node ''f'' [] []) (Some (Node ''fl'' [] [])) (Node ''pf'' [] []) None ?c =
     (n0, Some NoneValue)"
    using label_branch_precondition [THEN conjunct2, THEN conjunct1, rule_format,
        of sym_losses sym_model "Node ''ddf'' [] []" "Node ''grid'' [] []" "Node ''f'' [] []"
          "Node ''pf'' [] []" None ?c n0 "Some (Node ''fl'' [] [])" ?dis
          "CDict [(''name'', CStr ''dice'')]" ?fn]
      n0 cfg
    by simp
  then have 2: "snd (ddf_dvf_add_loss_metric sym_losses sym_model (Node ''ddf'' [] [])
     (Node ''grid'' [] []) (Node ''f'' [] []) (Some (Node ''fl'' [] [])) (Node ''pf'' [] [])
     None ?c) = Some NoneValue"
    by simp
  have "\<exists>g. build_ddf_dvf_model_graph ?U sym_layers [2, 2, 2] [4, 4, 4] 2 True 1 ?mc = Inr g"
    by (simp add: build_ddf_dvf_model_graph_def sym_util_def build_inputs_spec_def bind_err_def
          Let_def split: prod.splits)
  then obtain g1 where
    g1: "build_ddf_dvf_model_graph ?U sym_layers [2, 2, 2] [4, 4, 4] 2 True 1 ?mc = Inr g1" ..
  have "\<exists>g. build_ddf_dvf_model_graph ?U sym_layers [2, 2, 2] [4, 4, 4] 2 False 1 ?mc = Inr g"
    by (simp add: build_ddf_dvf_model_graph_def sym_util_def build_inputs_spec_def bind_err_def
          Let_def split: prod.splits)
  then obtain g2 where
    g2: "build_ddf_dvf_model_graph ?U sym_layers [2, 2, 2] [4, 4, 4] 2 False 1 ?mc = Inr g2" ..
  have 4: "g_moving_label g1 \<noteq> None \<and> g_fixed_label g1 \<noteq> None \<and> g_pred_fixed_label g1 \<noteq> None"
    using label_branch_precondition [THEN conjunct2, THEN conjunct2, rule_format, OF g1]
    by simp
  have 5: "g_moving_label g2 = None \<and> g_fixed_label g2 = None \<and> g_pred_fixed_label g2 = None"
    using label_branch_precondition [THEN conjunct2, THEN conjunct2, rule_format, OF g2]
    by simp
  from 1 2 4 5 g1 g2 show ?thesis
    by blast
qed

end
